theory Spec2Isabelle
  imports Main "HOL-Library.AList"
begin

section \<open>JavaScript strings\<close>

text \<open>
  The manager is TypeScript. A string is modelled as a \<^typ>\<open>string\<close> whose characters are
  the code units of the JavaScript string, restricted to the range 0..255. The functions
  below are the few operations of \<^verbatim>\<open>String.prototype\<close> and \<^verbatim>\<open>Array.prototype\<close> that
  \<^verbatim>\<open>AbstractCliManager.ts\<close> calls.
\<close>

definition newline :: char where
  "newline = CHR 0x0A"

text \<open>\<^verbatim>\<open>s.split(c)\<close> for a one-character separator: never an empty array.\<close>

fun js_split :: "char \<Rightarrow> string \<Rightarrow> string list" where
  "js_split c [] = [[]]"
| "js_split c (x # xs) =
     (if x = c then [] # js_split c xs
      else (x # hd (js_split c xs)) # tl (js_split c xs))"

text \<open>
  \<^verbatim>\<open>lines.pop() || ''\<close>: the last element, and the empty string when the array is empty
  or its last element is the empty string.
\<close>

definition pop_or_empty :: "string list \<Rightarrow> string" where
  "pop_or_empty lines = (if lines = [] then [] else last lines)"

text \<open>
  The white space and line terminators that \<^verbatim>\<open>trim()\<close> strips, among the code units below
  256: TAB, LF, VT, FF, CR, SP and NBSP.
\<close>

definition isWhitespace :: "char \<Rightarrow> bool" where
  "isWhitespace c =
     (c = CHR 0x09 \<or> c = CHR 0x0A \<or> c = CHR 0x0B \<or> c = CHR 0x0C \<or> c = CHR 0x0D \<or>
      c = CHR 0x20 \<or> c = CHR 0xA0)"

definition js_trim :: "string \<Rightarrow> string" where
  "js_trim s = rev (dropWhile isWhitespace (rev (dropWhile isWhitespace s)))"

text \<open>\<^verbatim>\<open>s.includes(sub)\<close>: \<open>sub\<close> occurs in \<open>s\<close> as a contiguous run.\<close>

fun str_includes :: "string \<Rightarrow> string \<Rightarrow> bool" where
  "str_includes [] sub = (sub = [])"
| "str_includes (x # xs) sub = (take (length sub) (x # xs) = sub \<or> str_includes xs sub)"

text \<open>
  \<^verbatim>\<open>s.substring(start)\<close>: a start that is negative counts as 0, one beyond the length as
  the length; the result runs from there to the end of \<open>s\<close>.
\<close>

definition substring :: "string \<Rightarrow> int \<Rightarrow> string" where
  "substring s start = drop (nat (max 0 (min start (int (length s))))) s"

text \<open>\<^verbatim>\<open>xs.join(sep)\<close>.\<close>

fun join :: "string \<Rightarrow> string list \<Rightarrow> string" where
  "join sep [] = []"
| "join sep [x] = x"
| "join sep (x # y # ys) = x @ sep @ join sep (y # ys)"

text \<open>
  \<^verbatim>\<open>s.toLowerCase()\<close> on code units below 256: the letters A..Z and the Latin-1 capitals
  (0xC0..0xDE but the multiplication sign 0xD7) move up by 32.
\<close>

definition lowerChar :: "char \<Rightarrow> char" where
  "lowerChar c =
     (let n = (of_char c :: nat) in
      if (65 \<le> n \<and> n \<le> 90) \<or> (192 \<le> n \<and> n \<le> 222 \<and> n \<noteq> 215)
      then char_of (n + 32) else c)"

definition toLowerCase :: "string \<Rightarrow> string" where
  "toLowerCase s = map lowerChar s"

text \<open>A number in a template literal: process ids and exit codes are integers, printed in decimal.\<close>

definition digit_char :: "nat \<Rightarrow> char" where
  "digit_char d = char_of (48 + d)"

function show_nat :: "nat \<Rightarrow> string" where
  "show_nat n = (if n < 10 then [digit_char n] else show_nat (n div 10) @ [digit_char (n mod 10)])"
  by pat_completeness auto
termination
  by (relation "measure id") auto

declare show_nat.simps [simp del]

definition show_int :: "int \<Rightarrow> string" where
  "show_int i = (if i < 0 then CHR ''-'' # show_nat (nat (- i)) else show_nat (nat i))"

text \<open>An optional string in a template literal: \<^verbatim>\<open>undefined\<close> prints as the word.\<close>

definition show_opt :: "string option \<Rightarrow> string" where
  "show_opt x = (case x of None \<Rightarrow> ''undefined'' | Some v \<Rightarrow> v)"

section \<open>Data model\<close>

text \<open>
  \<^verbatim>\<open>os.platform()\<close>: the code tells \<^verbatim>\<open>'win32'\<close> and \<^verbatim>\<open>'linux'\<close> from everything else.
\<close>

datatype platform = Win32 | Linux | OtherUnix

datatype signal = SIGTERM | SIGKILL

text \<open>
  A call that can throw (or an awaited promise that can reject) yields \<open>Inl msg\<close>, the
  message of the error, or \<open>Inr v\<close>, its value.
\<close>

type_synonym 'a res = "string + 'a"

text \<open>The availability result and the \<^verbatim>\<open>AvailabilityCache\<close> interface.\<close>

record availability =
  available :: bool
  error :: "string option"
  version :: "string option"
  path :: "string option"

record AvailabilityCache =
  result :: availability
  timestamp :: int

text \<open>
  \<^verbatim>\<open>pty.IPty\<close>: the handle of a spawned process. Only its \<^verbatim>\<open>pid\<close> is read; a pid of 0
  stands for a falsy \<^verbatim>\<open>pid\<close>. Writing to it and killing it are effects (below).
\<close>

datatype IPty = IPty (pty_pid: nat)

record CliProcess =
  process :: IPty
  panelId :: string
  sessionId :: string
  worktreePath :: string

record CliSpawnOptions =
  opt_panelId :: string
  opt_sessionId :: string
  opt_worktreePath :: string
  opt_prompt :: string
  opt_isResume :: "bool option"

datatype output_type = json | stdout | stderr

text \<open>
  The \<^verbatim>\<open>data\<close> of an output event is \<^verbatim>\<open>unknown\<close> in the source. The manager itself emits
  plain text and \<^verbatim>\<open>{type: 'session', data: {status, message, details}}\<close> objects.
\<close>

datatype payload =
    Text string
  | SessionMessage (status: string) (message: string) (details: string)

text \<open>
  \<^verbatim>\<open>CliOutputEvent\<close>, without its \<^verbatim>\<open>timestamp\<close> (a reading of the wall clock that no
  decision depends on).
\<close>

record CliOutputEvent =
  ev_panelId :: string
  ev_sessionId :: string
  ev_type :: output_type
  ev_data :: payload

text \<open>The four events of the manager: \<^verbatim>\<open>spawned\<close>, \<^verbatim>\<open>output\<close>, \<^verbatim>\<open>exit\<close> and \<^verbatim>\<open>error\<close>.\<close>

datatype event =
    Spawned string string
  | Output CliOutputEvent
  | Exit string string "int option" "int option"
  | Error string string string

text \<open>
  Everything the manager does to the outside, in the order it does it. \<open>Emitted ev ids\<close>
  is a call of \<^verbatim>\<open>this.emit\<close>: Node runs the listeners synchronously inside the call, so
  a listener sees the registry as it is at that moment; \<open>ids\<close> are the panel ids it would
  read from \<^verbatim>\<open>getAllProcesses()\<close>. Calls of the logger are left out: they change
  nothing that is modelled.
\<close>

datatype action =
    Emitted event "string list"
  | ParseCliOutput string string string
  | TestCliAvailability "string option"
  | InitializeCliEnvironment CliSpawnOptions
  | CleanupCliResources string
  | AddSessionError string string string
  | PtySpawn string "string list" string "(string \<times> string) list"
  | PtyWrite IPty string
  | PtyKill IPty
  | ExecAsync string
  | ProcessKill nat signal
  | Sleep nat

text \<open>
  The manager: the \<^verbatim>\<open>processes\<close> map (a JavaScript \<^verbatim>\<open>Map\<close> keeps insertion order, so an
  association list), the availability cache, the process-wide \<^verbatim>\<open>global\<close> object as far
  as the fallback flags go, and the trace of actions so far.
\<close>

record manager =
  processes :: "(string \<times> CliProcess) list"
  availabilityCache :: "AvailabilityCache option"
  globalFlags :: "string \<Rightarrow> bool"
  trace :: "action list"

text \<open>
  What the manager is given: the abstract methods a tool's subclass implements, and the
  answers of the operating system, of Node and of the helper modules that are not part
  of this file (\<^verbatim>\<open>shellPath\<close>, \<^verbatim>\<open>nodeFinder\<close>, the config manager) during one
  operation.
  \<open>getAllDescendantPids k pid\<close> is the list the \<open>k\<close>-th enumeration of the descendants
  returns (0: by the caller of \<^verbatim>\<open>killProcessTree\<close>, 1 and 2: by \<^verbatim>\<open>killProcessTree\<close>
  before and after killing). That method shells out to \<^verbatim>\<open>ps\<close> or \<^verbatim>\<open>wmic\<close> inside a
  \<^verbatim>\<open>try\<close> that covers all of it, so it returns a list whatever happens.
  \<open>dateNow 0\<close> is the reading of \<^verbatim>\<open>Date.now()\<close> in the freshness test of the cache,
  \<open>dateNow 1\<close> the one stored with a new cache entry.
\<close>

record env =
  getCliToolName :: string
  testCliAvailability :: "string option \<Rightarrow> availability res"
  buildCommandArgs :: "CliSpawnOptions \<Rightarrow> string list"
  getCliExecutablePath :: "string res"
  parseCliOutput :: "string \<Rightarrow> string \<Rightarrow> string \<Rightarrow> CliOutputEvent list"
  initializeCliEnvironment :: "CliSpawnOptions \<Rightarrow> (string \<times> string) list res"
  osPlatform :: platform
  dateNow :: "nat \<Rightarrow> int"
  claudeExecutablePath :: "string option"
  getShellPath :: string
  processEnv :: "(string \<times> string) list"
  findNodeExecutable :: "string res"
  findCliNodeScript :: "string \<Rightarrow> string option res"
  dirname :: "string \<Rightarrow> string"
  ptyLoaded :: bool
  ptySpawn :: "string \<Rightarrow> string list \<Rightarrow> string \<Rightarrow> (string \<times> string) list \<Rightarrow> IPty res"
  getAllDescendantPids :: "nat \<Rightarrow> nat \<Rightarrow> nat list"
  execSync :: "string \<Rightarrow> string res"
  execAsync :: "string \<Rightarrow> unit res"
  processKill :: "nat \<Rightarrow> signal \<Rightarrow> unit res"
  ptyKill :: "IPty \<Rightarrow> unit res"

section \<open>Control flow: state, exceptions, loops\<close>

text \<open>
  A method of the manager takes the manager and returns it updated, with a value or the
  error it threw. Listeners, the logger, the abstract \<^verbatim>\<open>cleanupCliResources\<close> and
  \<^verbatim>\<open>buildCommandArgs\<close>, and the session manager are taken not to throw. Each operation
  runs to its end before the next one starts.
\<close>

type_synonym 'a io = "manager \<Rightarrow> 'a res \<times> manager"

definition ret :: "'a \<Rightarrow> 'a io" where
  "ret v = (\<lambda>s. (Inr v, s))"

definition throw :: "string \<Rightarrow> 'a io" where
  "throw msg = (\<lambda>s. (Inl msg, s))"

definition bind :: "'a io \<Rightarrow> ('a \<Rightarrow> 'b io) \<Rightarrow> 'b io" where
  "bind m f = (\<lambda>s. case m s of (Inl err, s') \<Rightarrow> (Inl err, s') | (Inr v, s') \<Rightarrow> f v s')"

definition seq :: "unit io \<Rightarrow> 'b io \<Rightarrow> 'b io" where
  "seq m n = bind m (\<lambda>_. n)"

text \<open>\<^verbatim>\<open>try { m } catch (err) { h(err) }\<close>\<close>

definition try_catch :: "'a io \<Rightarrow> (string \<Rightarrow> 'a io) \<Rightarrow> 'a io" where
  "try_catch m h = (\<lambda>s. case m s of (Inl err, s') \<Rightarrow> h err s' | (Inr v, s') \<Rightarrow> (Inr v, s'))"

text \<open>\<^verbatim>\<open>for (const x of xs) { f(x) }\<close>\<close>

fun for_each :: "'a list \<Rightarrow> ('a \<Rightarrow> unit io) \<Rightarrow> unit io" where
  "for_each [] f = ret ()"
| "for_each (x # xs) f = seq (f x) (for_each xs f)"

definition effect :: "action \<Rightarrow> unit io" where
  "effect a = (\<lambda>s. (Inr (), s\<lparr>trace := trace s @ [a]\<rparr>))"

text \<open>The outcome of a call into the environment, returned or thrown.\<close>

definition await :: "'a res \<Rightarrow> 'a io" where
  "await r = (\<lambda>s. (r, s))"

text \<open>An effect that can fail: the action is recorded, then the call returns or throws.\<close>

definition attempt :: "action \<Rightarrow> 'a res \<Rightarrow> 'a io" where
  "attempt a r = seq (effect a) (await r)"

section \<open>The registry\<close>

definition getProcess :: "manager \<Rightarrow> string \<Rightarrow> CliProcess option" where
  "getProcess s p = map_of (processes s) p"

definition getAllProcesses :: "manager \<Rightarrow> string list" where
  "getAllProcesses s = map fst (processes s)"

definition isPanelRunning :: "manager \<Rightarrow> string \<Rightarrow> bool" where
  "isPanelRunning s p = (map_of (processes s) p \<noteq> None)"

text \<open>\<^verbatim>\<open>this.processes.set(k, v)\<close> and \<^verbatim>\<open>this.processes.delete(k)\<close>\<close>

definition processes_set :: "string \<Rightarrow> CliProcess \<Rightarrow> unit io" where
  "processes_set k v = (\<lambda>s. (Inr (), s\<lparr>processes := AList.update k v (processes s)\<rparr>))"

definition processes_delete :: "string \<Rightarrow> unit io" where
  "processes_delete k = (\<lambda>s. (Inr (), s\<lparr>processes := AList.delete k (processes s)\<rparr>))"

definition emit :: "event \<Rightarrow> unit io" where
  "emit ev = (\<lambda>s. (Inr (), s\<lparr>trace := trace s @ [Emitted ev (getAllProcesses s)]\<rparr>))"

section \<open>The output pipeline\<close>

text \<open>
  The three variables that \<^verbatim>\<open>setupProcessHandlers\<close> closes over, one set per spawned
  process.
\<close>

record handler_state =
  hasReceivedOutput :: bool
  lastOutput :: string
  buffer :: string

definition initial_handler_state :: handler_state where
  "initial_handler_state = \<lparr>hasReceivedOutput = False, lastOutput = [], buffer = []\<rparr>"

text \<open>
  The call of the tool's parser and the loop that emits each event it returns
  (lines 679-682 and 712-715).
\<close>

definition parseAndEmit :: "env \<Rightarrow> string \<Rightarrow> string \<Rightarrow> string \<Rightarrow> unit io" where
  "parseAndEmit e dat p sid =
     seq (effect (ParseCliOutput dat p sid))
         (for_each (parseCliOutput e dat p sid) (\<lambda>ev. emit (Output ev)))"

text \<open>The \<^verbatim>\<open>onData\<close> handler (lines 668-685): returns the closure's variables, updated.\<close>

definition onData :: "env \<Rightarrow> string \<Rightarrow> string \<Rightarrow> string \<Rightarrow> handler_state \<Rightarrow> handler_state io" where
  "onData e p sid dat h =
     (let lastOutput' = lastOutput h @ dat;
          buf = buffer h @ dat;
          lines = js_split newline buf;
          buffer' = pop_or_empty lines;
          lines' = butlast lines
      in seq (for_each lines'
                (\<lambda>line. if js_trim line \<noteq> []
                         then parseAndEmit e (line @ [newline]) p sid
                         else ret ()))
             (ret \<lparr>hasReceivedOutput = True, lastOutput = lastOutput', buffer = buffer'\<rparr>))"

text \<open>The pseudo-terminal delivers the chunks of the output one by one, in order.\<close>

fun feedChunks :: "env \<Rightarrow> string \<Rightarrow> string \<Rightarrow> string list \<Rightarrow> handler_state \<Rightarrow> handler_state io" where
  "feedChunks e p sid [] h = ret h"
| "feedChunks e p sid (c # cs) h = bind (onData e p sid c h) (feedChunks e p sid cs)"

section \<open>The availability probe\<close>

definition CACHE_TTL :: int where
  "CACHE_TTL = 5 * 60 * 1000"

text \<open>
  The fresh check of \<^verbatim>\<open>getCachedAvailability\<close> (lines 459-469): the abstract
  \<^verbatim>\<open>testCliAvailability\<close> is called with the custom path of the configuration, and its
  result is cached with a new reading of the clock.
\<close>

definition freshAvailability :: "env \<Rightarrow> availability io" where
  "freshAvailability e =
     (let customPath = claudeExecutablePath e in
      bind (attempt (TestCliAvailability customPath) (testCliAvailability e customPath))
        (\<lambda>a s. (Inr a, s\<lparr>availabilityCache := Some \<lparr>result = a, timestamp = dateNow e 1\<rparr>\<rparr>)))"

definition getCachedAvailability :: "env \<Rightarrow> availability io" where
  "getCachedAvailability e =
     (\<lambda>s. case availabilityCache s of
            None \<Rightarrow> freshAvailability e s
          | Some c \<Rightarrow>
              if dateNow e 0 - timestamp c < CACHE_TTL then ret (result c) s
              else freshAvailability e s)"

definition clearAvailabilityCache :: "unit io" where
  "clearAvailabilityCache = (\<lambda>s. (Inr (), s\<lparr>availabilityCache := None\<rparr>))"

definition getCliNotAvailableMessage :: "env \<Rightarrow> string option \<Rightarrow> string" where
  "getCliNotAvailableMessage e err =
     join [newline]
       [''Error: '' @ show_opt err,
        [],
        getCliToolName e @ '' is not installed or not found in your PATH.'',
        [],
        ''Please install '' @ getCliToolName e @ '':'',
        ''1. Follow the installation instructions for your platform'',
        ''2. Verify installation by running '' @ [CHR 0x22] @ getCliToolName e @ '' --version''
          @ [CHR 0x22] @ '' in your terminal'',
        [],
        ''If '' @ getCliToolName e @ '' is installed but not in your PATH:'',
        ''- Add the '' @ getCliToolName e
          @ '' installation directory to your PATH environment variable'',
        ''- Or set a custom executable path in Crystal Settings'',
        [],
        ''Enhanced PATH searched: '' @ getShellPath e,
        ''Attempted command: '' @ getCliToolName e @ '' --version'']"

definition handleCliNotAvailable :: "env \<Rightarrow> availability \<Rightarrow> string \<Rightarrow> string \<Rightarrow> unit io" where
  "handleCliNotAvailable e a p sid =
     seq (emit (Output \<lparr>ev_panelId = p, ev_sessionId = sid, ev_type = json,
                        ev_data = SessionMessage ''error'' (getCliToolName e @ '' not available'')
                                    (getCliNotAvailableMessage e (error a))\<rparr>))
         (effect (AddSessionError sid (getCliToolName e @ '' not available'')
                    (show_opt (error a) @ [newline] @ ''Please install '' @ getCliToolName e
                       @ '' or verify it is in your PATH.'')))"

section \<open>Spawning\<close>

definition getSystemEnvironment :: "env \<Rightarrow> (string \<times> string) list io" where
  "getSystemEnvironment e =
     bind (await (findNodeExecutable e))
       (\<lambda>nodePath.
          let nodeDir = dirname e nodePath;
              pathSeparator = (if osPlatform e = Win32 then '';'' else '':'');
              pathWithNode = nodeDir @ pathSeparator @ getShellPath e
          in ret (AList.update ''PATH'' pathWithNode (processEnv e)))"

definition needsNodeFallbackKey :: "env \<Rightarrow> string" where
  "needsNodeFallbackKey e = toLowerCase (getCliToolName e) @ ''NeedsNodeFallback''"

text \<open>The test for a shebang-related error message (lines 641-644).\<close>

definition isShebangError :: "string \<Rightarrow> bool" where
  "isShebangError errorMsg =
     (str_includes errorMsg ''No such file or directory'' \<or>
      str_includes errorMsg ''env: node:'' \<or>
      str_includes errorMsg ''is not recognized'' \<or>
      str_includes errorMsg ''ENOENT'')"

text \<open>The first branch of the attempt (lines 582-589): \<^verbatim>\<open>pty.spawn(command, args, ...)\<close>.\<close>

definition directSpawn ::
  "env \<Rightarrow> string \<Rightarrow> string list \<Rightarrow> string \<Rightarrow> (string \<times> string) list \<Rightarrow> IPty io" where
  "directSpawn e command args cwd envmap =
     attempt (PtySpawn command args cwd envmap) (ptySpawn e command args cwd envmap)"

text \<open>
  The second branch (lines 591-626). A helper that throws, or finds nothing or the empty
  string, leaves \<^verbatim>\<open>scriptPath\<close> at \<^verbatim>\<open>command\<close>.
\<close>

definition nodeArgsFor :: "env \<Rightarrow> string \<Rightarrow> string list \<Rightarrow> string list" where
  "nodeArgsFor e command args =
     (let scriptPath =
            (case findCliNodeScript e command of
               Inr (Some foundScript) \<Rightarrow> if foundScript \<noteq> [] then foundScript else command
             | Inr None \<Rightarrow> command
             | Inl _ \<Rightarrow> command)
      in if scriptPath = command then command # args
         else [''--no-warnings'', ''--enable-source-maps'', scriptPath] @ args)"

definition nodeFallbackSpawn ::
  "env \<Rightarrow> string \<Rightarrow> string list \<Rightarrow> string \<Rightarrow> (string \<times> string) list \<Rightarrow> IPty io" where
  "nodeFallbackSpawn e command args cwd envmap =
     (let nodeArgs = nodeArgsFor e command args in
      bind (await (findNodeExecutable e))
        (\<lambda>nodePath. attempt (PtySpawn nodePath nodeArgs cwd envmap)
                       (ptySpawn e nodePath nodeArgs cwd envmap)))"

text \<open>The body of the \<^verbatim>\<open>try\<close> inside the loop (lines 574-631).\<close>

definition spawnAttemptBody ::
  "env \<Rightarrow> string \<Rightarrow> string list \<Rightarrow> string \<Rightarrow> (string \<times> string) list \<Rightarrow> nat \<Rightarrow> IPty io" where
  "spawnAttemptBody e command args cwd envmap spawnAttempt =
     seq (\<lambda>s. if osPlatform e = Linux \<and> length (processes s) > 0
               then effect (Sleep 500) s else ret () s)
         (\<lambda>s. if spawnAttempt = 0 \<and> \<not> globalFlags s (needsNodeFallbackKey e)
               then directSpawn e command args cwd envmap s
               else nodeFallbackSpawn e command args cwd envmap s)"

text \<open>The code after the loop (lines 654-657).\<close>

definition spawnFailed :: "env \<Rightarrow> string option \<Rightarrow> IPty io" where
  "spawnFailed e lastError =
     throw (''Failed to spawn '' @ getCliToolName e @ '': '' @ show_opt lastError)"

text \<open>
  The loop \<^verbatim>\<open>while (spawnAttempt < 2)\<close> (lines 572-652), with its two variables.
  \<^verbatim>\<open>continue\<close> is the recursive call, \<^verbatim>\<open>break\<close> goes to the code after the loop.
\<close>

function spawnLoop ::
  "env \<Rightarrow> string \<Rightarrow> string list \<Rightarrow> string \<Rightarrow> (string \<times> string) list \<Rightarrow> nat \<Rightarrow> string option
   \<Rightarrow> IPty io" where
  "spawnLoop e command args cwd envmap spawnAttempt lastError s =
     (if spawnAttempt < 2 then
        (case spawnAttemptBody e command args cwd envmap spawnAttempt s of
           (Inr ptyProcess, s') \<Rightarrow> (Inr ptyProcess, s')
         | (Inl spawnError, s') \<Rightarrow>
             if spawnAttempt + 1 = 1 \<and> \<not> globalFlags s' (needsNodeFallbackKey e)
                \<and> isShebangError spawnError
             then spawnLoop e command args cwd envmap (spawnAttempt + 1) (Some spawnError)
                    (s'\<lparr>globalFlags := (globalFlags s')(needsNodeFallbackKey e := True)\<rparr>)
             else spawnFailed e (Some spawnError) s')
      else spawnFailed e lastError s)"
  by pat_completeness auto
termination
  by (relation "measure (\<lambda>(e, command, args, cwd, envmap, spawnAttempt, lastError, s). 2 - spawnAttempt)")
     auto

declare spawnLoop.simps [simp del]

definition spawnPtyProcess ::
  "env \<Rightarrow> string \<Rightarrow> string list \<Rightarrow> string \<Rightarrow> (string \<times> string) list \<Rightarrow> IPty io" where
  "spawnPtyProcess e command args cwd envmap =
     (if \<not> ptyLoaded e then throw ''node-pty not available''
      else spawnLoop e command args cwd envmap 0 None)"

text \<open>
  The \<^verbatim>\<open>try\<close> block of \<^verbatim>\<open>spawnCliProcess\<close> (lines 133-189). \<^verbatim>\<open>setupProcessHandlers\<close>
  registers the two handlers of the process with a fresh \<open>initial_handler_state\<close>; it
  changes nothing in the manager.
\<close>

definition spawnCliProcessBody :: "env \<Rightarrow> CliSpawnOptions \<Rightarrow> unit io" where
  "spawnCliProcessBody e options =
     bind (getCachedAvailability e)
       (\<lambda>a.
          if \<not> available a then
            seq (handleCliNotAvailable e a (opt_panelId options) (opt_sessionId options))
                (throw (getCliToolName e @ '' CLI not available: '' @ show_opt (error a)))
          else
            bind (attempt (InitializeCliEnvironment options) (initializeCliEnvironment e options))
              (\<lambda>cliEnv.
            bind (getSystemEnvironment e)
              (\<lambda>systemEnv.
            bind (await (getCliExecutablePath e))
              (\<lambda>cliCommand.
            bind (spawnPtyProcess e cliCommand (buildCommandArgs e options)
                    (opt_worktreePath options)
                    (fold (\<lambda>kv. AList.update (fst kv) (snd kv)) cliEnv systemEnv))
              (\<lambda>ptyProcess.
            seq (processes_set (opt_panelId options)
                   \<lparr>process = ptyProcess, panelId = opt_panelId options,
                    sessionId = opt_sessionId options,
                    worktreePath = opt_worktreePath options\<rparr>)
                (emit (Spawned (opt_panelId options) (opt_sessionId options))))))))"

definition spawnCliProcess :: "env \<Rightarrow> CliSpawnOptions \<Rightarrow> unit io" where
  "spawnCliProcess e options =
     try_catch (spawnCliProcessBody e options)
       (\<lambda>errorMessage.
          seq (emit (Error (opt_panelId options) (opt_sessionId options) errorMessage))
              (throw errorMessage))"

text \<open>\<^verbatim>\<open>sendInput\<close> (lines 206-220). Writing to the pseudo-terminal is taken not to throw.\<close>

definition sendInput :: "env \<Rightarrow> string \<Rightarrow> string \<Rightarrow> unit io" where
  "sendInput e p input =
     (\<lambda>s. case map_of (processes s) p of
            None \<Rightarrow> throw (''No '' @ getCliToolName e @ '' process found for panel '' @ p) s
          | Some cliProcess \<Rightarrow>
              if panelId cliProcess \<noteq> p
              then throw ''Panel ID mismatch: process belongs to different panel'' s
              else effect (PtyWrite (process cliProcess) input) s)"

section \<open>Killing a process tree\<close>

text \<open>
  The name of one process in \<^verbatim>\<open>getProcessInfo\<close> (lines 856-879): a failing query and
  an empty name both give \<^verbatim>\<open>'unknown'\<close>.
\<close>

definition processName :: "env \<Rightarrow> nat \<Rightarrow> string" where
  "processName e pid =
     (if osPlatform e = Win32 then
        (case execSync e (''wmic process where ProcessId='' @ show_nat pid @ '' get Name'') of
           Inl _ \<Rightarrow> ''unknown''
         | Inr out \<Rightarrow>
             (let lines = filter (\<lambda>line. js_trim line \<noteq> []) (js_split newline out) in
              if length lines > 1 \<and> js_trim (lines ! 1) \<noteq> [] then js_trim (lines ! 1)
              else ''unknown''))
      else
        (case execSync e (''ps -p '' @ show_nat pid @ '' -o comm= 2>/dev/null || true'') of
           Inl _ \<Rightarrow> ''unknown''
         | Inr out \<Rightarrow> if js_trim out \<noteq> [] then js_trim out else ''unknown''))"

definition getProcessInfo :: "env \<Rightarrow> nat list \<Rightarrow> (nat \<times> string) list" where
  "getProcessInfo e pids = map (\<lambda>pid. (pid, processName e pid)) pids"

text \<open>
  \<^verbatim>\<open>ps.map(p => `${p.name || 'unknown'}(${p.pid})`).join(', ')\<close>, the report of lines
  253, 698 and 969.
\<close>

definition processReport :: "(nat \<times> string) list \<Rightarrow> string" where
  "processReport ps =
     join '', ''
       (map (\<lambda>pn. (if snd pn \<noteq> [] then snd pn else ''unknown'') @ ''('' @ show_nat (fst pn) @ '')'')
            ps)"

text \<open>\<^verbatim>\<open>`process${n > 1 ? 'es' : ''}`\<close>\<close>

definition plural :: "nat \<Rightarrow> string" where
  "plural n = (if n > 1 then ''es'' else [])"

text \<open>A call whose failure is caught and ignored (or only logged).\<close>

definition ignoring :: "unit io \<Rightarrow> unit io" where
  "ignoring m = try_catch m (\<lambda>_. ret ())"

text \<open>The kill commands of \<^verbatim>\<open>killProcessTree\<close>, for Windows and for Unix (lines 897-958).\<close>

definition killCommands :: "env \<Rightarrow> nat \<Rightarrow> nat list \<Rightarrow> unit io" where
  "killCommands e pid descendantPids =
     (if osPlatform e = Win32 then
        try_catch
          (attempt (ExecAsync (''taskkill /F /T /PID '' @ show_nat pid))
             (execAsync e (''taskkill /F /T /PID '' @ show_nat pid)))
          (\<lambda>_. for_each descendantPids
                  (\<lambda>childPid.
                     ignoring (attempt (ExecAsync (''taskkill /F /PID '' @ show_nat childPid))
                                 (execAsync e (''taskkill /F /PID '' @ show_nat childPid)))))
      else
        seq (ignoring (attempt (ProcessKill pid SIGTERM) (processKill e pid SIGTERM)))
       (seq (ignoring (attempt (ExecAsync (''kill -TERM -'' @ show_nat pid))
                         (execAsync e (''kill -TERM -'' @ show_nat pid))))
       (seq (effect (Sleep 200))
       (seq (ignoring (attempt (ProcessKill pid SIGKILL) (processKill e pid SIGKILL)))
       (seq (ignoring (attempt (ExecAsync (''kill -9 -'' @ show_nat pid))
                         (execAsync e (''kill -9 -'' @ show_nat pid))))
       (seq (for_each descendantPids
               (\<lambda>childPid.
                  ignoring (attempt (ExecAsync (''kill -9 '' @ show_nat childPid))
                              (execAsync e (''kill -9 '' @ show_nat childPid)))))
            (ignoring (attempt (ExecAsync (''pkill -9 -P '' @ show_nat pid))
                         (execAsync e (''pkill -9 -P '' @ show_nat pid))))))))))"

text \<open>The warning of lines 971-977.\<close>

definition zombieWarning :: "env \<Rightarrow> string \<Rightarrow> string \<Rightarrow> nat list \<Rightarrow> CliOutputEvent" where
  "zombieWarning e p sid remainingPids =
     \<lparr>ev_panelId = p, ev_sessionId = sid, ev_type = stderr,
      ev_data = Text ([newline] @ ''[WARNING] Failed to terminate ''
                  @ show_nat (length remainingPids) @ '' child process''
                  @ plural (length remainingPids) @ '': ''
                  @ processReport (getProcessInfo e remainingPids) @ [newline]
                  @ ''Please manually kill these processes.'' @ [newline])\<rparr>"

text \<open>
  The outer \<^verbatim>\<open>try\<close> block of \<^verbatim>\<open>killProcessTree\<close> (lines 897-978); its value is the
  variable \<^verbatim>\<open>success\<close> at the end of the block.
\<close>

definition killAndVerify :: "env \<Rightarrow> nat \<Rightarrow> string \<Rightarrow> string \<Rightarrow> nat list \<Rightarrow> bool io" where
  "killAndVerify e pid p sid descendantPids =
     seq (killCommands e pid descendantPids)
    (seq (effect (Sleep 500))
         (let remainingPids = getAllDescendantPids e 2 pid in
          if length remainingPids > 0
          then seq (emit (Output (zombieWarning e p sid remainingPids))) (ret False)
          else ret True))"

text \<open>The last \<^verbatim>\<open>try\<close> block (lines 985-992): kill through the handle, if the panel is registered.\<close>

definition killViaPty :: "env \<Rightarrow> string \<Rightarrow> unit io" where
  "killViaPty e p =
     (\<lambda>s. case map_of (processes s) p of
            None \<Rightarrow> ret () s
          | Some cliProcess \<Rightarrow>
              attempt (PtyKill (process cliProcess)) (ptyKill e (process cliProcess)) s)"

definition killProcessTree :: "env \<Rightarrow> nat \<Rightarrow> string \<Rightarrow> string \<Rightarrow> bool io" where
  "killProcessTree e pid p sid =
     (let descendantPids = getAllDescendantPids e 1 pid in
      bind (try_catch (killAndVerify e pid p sid descendantPids) (\<lambda>_. ret False))
        (\<lambda>success. seq (ignoring (killViaPty e p)) (ret success)))"

text \<open>The report of the children found before the kill (lines 252-261).\<close>

definition killedReport :: "env \<Rightarrow> string \<Rightarrow> string \<Rightarrow> (nat \<times> string) list \<Rightarrow> CliOutputEvent" where
  "killedReport e p sid killedProcesses =
     \<lparr>ev_panelId = p, ev_sessionId = sid, ev_type = stdout,
      ev_data = Text ([newline] @ ''[Process Cleanup] Terminated ''
                  @ show_nat (length killedProcesses) @ '' child process''
                  @ plural (length killedProcesses) @ '' started by '' @ getCliToolName e
                  @ '': '' @ processReport killedProcesses @ [newline])\<rparr>"

text \<open>\<^verbatim>\<open>killProcess\<close> (lines 225-273).\<close>

definition killProcess :: "env \<Rightarrow> string \<Rightarrow> unit io" where
  "killProcess e p =
     (\<lambda>s. case map_of (processes s) p of
            None \<Rightarrow> ret () s
          | Some cliProcess \<Rightarrow>
              (let sid = sessionId cliProcess;
                   pid = pty_pid (process cliProcess);
                   descendantPids = (if pid \<noteq> 0 then getAllDescendantPids e 0 pid else []);
                   killedProcesses =
                     (if length descendantPids > 0 then getProcessInfo e descendantPids else [])
               in seq (effect (CleanupCliResources sid))
                 (seq (if pid \<noteq> 0 then
                         bind (killProcessTree e pid p sid)
                           (\<lambda>success.
                              if length killedProcesses > 0
                              then emit (Output (killedReport e p sid killedProcesses))
                              else ret ())
                       else attempt (PtyKill (process cliProcess))
                              (ptyKill e (process cliProcess)))
                      (processes_delete p))) s)"

text \<open>
  \<^verbatim>\<open>killAllProcesses\<close> (lines 299-305) starts one \<^verbatim>\<open>killProcess\<close> per registered panel
  and waits for all of them; here they run one after the other, in the order of the keys.
\<close>

definition killAllProcesses :: "env \<Rightarrow> unit io" where
  "killAllProcesses e = (\<lambda>s. for_each (getAllProcesses s) (killProcess e) s)"

section \<open>The exit handler\<close>

definition handleProcessStartupFailure ::
  "env \<Rightarrow> int \<Rightarrow> int option \<Rightarrow> string \<Rightarrow> string \<Rightarrow> string \<Rightarrow> unit io" where
  "handleProcessStartupFailure e exitCode sig p sid lastOut =
     emit (Output \<lparr>ev_panelId = p, ev_sessionId = sid, ev_type = json,
       ev_data = SessionMessage ''error''
         (getCliToolName e @ '' failed to start (exit code: '' @ show_int exitCode @ '')'')
         (join [newline]
            [''This usually means '' @ getCliToolName e
               @ '' is not installed properly or not found in your PATH.'',
             [],
             ''Please ensure:'',
             ''1. '' @ getCliToolName e @ '' is installed'',
             ''2. The '' @ [CHR 0x22] @ getCliToolName e @ [CHR 0x22]
               @ '' command is available in your terminal'',
             ''3. Your PATH environment variable includes the installation directory'',
             [],
             ''Exit code: '' @ show_int exitCode
               @ (case sig of
                    None \<Rightarrow> []
                  | Some n \<Rightarrow> if n \<noteq> 0 then '', Signal: '' @ show_int n else []),
             [],
             ''You can also set a custom executable path in the Settings.''])\<rparr>)"

text \<open>\<^verbatim>\<open>handleProcessRuntimeFailure\<close> (lines 781-800), with its \<^verbatim>\<open>lastOutput.substring(-500)\<close>.\<close>

definition runtimeFailureDetails :: "string \<Rightarrow> string" where
  "runtimeFailureDetails lastOut =
     (if length lastOut > 0 then ''Last output:'' @ [newline] @ substring lastOut (- 500)
      else ''No additional details available'')"

definition handleProcessRuntimeFailure ::
  "env \<Rightarrow> int \<Rightarrow> int option \<Rightarrow> string \<Rightarrow> string \<Rightarrow> string \<Rightarrow> unit io" where
  "handleProcessRuntimeFailure e exitCode sig p sid lastOut =
     emit (Output \<lparr>ev_panelId = p, ev_sessionId = sid, ev_type = json,
       ev_data = SessionMessage ''error''
         (getCliToolName e @ '' exited with error (exit code: '' @ show_int exitCode @ '')'')
         (runtimeFailureDetails lastOut)\<rparr>)"

text \<open>The report of the orphaned children (lines 698-706).\<close>

definition orphanReport :: "env \<Rightarrow> string \<Rightarrow> string \<Rightarrow> (nat \<times> string) list \<Rightarrow> CliOutputEvent" where
  "orphanReport e p sid killedProcesses =
     \<lparr>ev_panelId = p, ev_sessionId = sid, ev_type = stdout,
      ev_data = Text ([newline] @ ''[Process Cleanup] Terminated ''
                  @ show_nat (length killedProcesses) @ '' orphaned child process''
                  @ plural (length killedProcesses) @ '' after '' @ getCliToolName e
                  @ '' exit: '' @ processReport killedProcesses @ [newline])\<rparr>"

text \<open>The sweep of the children that outlive the process (lines 689-708).\<close>

definition sweepOrphans :: "env \<Rightarrow> IPty \<Rightarrow> string \<Rightarrow> string \<Rightarrow> unit io" where
  "sweepOrphans e ptyProcess p sid =
     (let pid = pty_pid ptyProcess in
      if pid \<noteq> 0 then
        (let descendantPids = getAllDescendantPids e 0 pid in
         if length descendantPids > 0 then
           (let killedProcesses = getProcessInfo e descendantPids in
            bind (killProcessTree e pid p sid)
              (\<lambda>_. emit (Output (orphanReport e p sid killedProcesses))))
         else ret ())
      else ret ())"

text \<open>
  The \<^verbatim>\<open>onExit\<close> handler (lines 687-740), given the variables of the closure as the
  \<^verbatim>\<open>onData\<close> handler left them.
\<close>

definition onExit ::
  "env \<Rightarrow> IPty \<Rightarrow> string \<Rightarrow> string \<Rightarrow> handler_state \<Rightarrow> int \<Rightarrow> int option \<Rightarrow> unit io" where
  "onExit e ptyProcess p sid h exitCode sig =
     seq (sweepOrphans e ptyProcess p sid)
    (seq (if js_trim (buffer h) \<noteq> [] then parseAndEmit e (buffer h) p sid else ret ())
    (seq (if exitCode \<noteq> 0 then
            (if \<not> hasReceivedOutput h
             then handleProcessStartupFailure e exitCode sig p sid (lastOutput h)
             else handleProcessRuntimeFailure e exitCode sig p sid (lastOutput h))
          else ret ())
    (seq (effect (CleanupCliResources sid))
    (seq (emit (Exit p sid (Some exitCode) sig))
         (processes_delete p)))))"

section \<open>The states the public operations reach\<close>

text \<open>
  A new manager has an empty \<^verbatim>\<open>processes\<close> map. From there the map changes only through
  the public methods and the two handlers of a spawned process, whatever the environment
  answers each time.
\<close>

inductive reachable :: "manager \<Rightarrow> bool" where
  reach_new: "processes s = [] \<Longrightarrow> reachable s"
| reach_spawnCliProcess: "reachable s \<Longrightarrow> reachable (snd (spawnCliProcess e options s))"
| reach_sendInput: "reachable s \<Longrightarrow> reachable (snd (sendInput e p input s))"
| reach_killProcess: "reachable s \<Longrightarrow> reachable (snd (killProcess e p s))"
| reach_killAllProcesses: "reachable s \<Longrightarrow> reachable (snd (killAllProcesses e s))"
| reach_clearAvailabilityCache: "reachable s \<Longrightarrow> reachable (snd (clearAvailabilityCache s))"
| reach_onData: "reachable s \<Longrightarrow> reachable (snd (onData e p sid dat h s))"
| reach_onExit: "reachable s \<Longrightarrow> reachable (snd (onExit e ptyProcess p sid h exitCode sig s))"

section \<open>Auxiliary definitions for the proofs and the examples\<close>

text \<open>The manager after some more actions.\<close>

definition add_trace :: "action list \<Rightarrow> manager \<Rightarrow> manager" where
  "add_trace d s = s\<lparr>trace := trace s @ d\<rparr>"

text \<open>The actions that \<open>parseAndEmit\<close> and the loop over the lines of \<open>onData\<close> add.\<close>

definition emitActions :: "string list \<Rightarrow> CliOutputEvent list \<Rightarrow> action list" where
  "emitActions ids evs = map (\<lambda>ev. Emitted (Output ev) ids) evs"

definition parseActions :: "env \<Rightarrow> string list \<Rightarrow> string \<Rightarrow> string \<Rightarrow> string \<Rightarrow> action list" where
  "parseActions e ids dat p sid =
     ParseCliOutput dat p sid # emitActions ids (parseCliOutput e dat p sid)"

definition lineActions :: "env \<Rightarrow> string list \<Rightarrow> string \<Rightarrow> string \<Rightarrow> string list \<Rightarrow> action list" where
  "lineActions e ids p sid lines =
     concat (map (\<lambda>line. if js_trim line \<noteq> [] then parseActions e ids (line @ [newline]) p sid
                          else [])
                 lines)"

text \<open>
  A concrete tool and environment for the examples: a tool named \<open>Claude\<close> on Linux whose
  parser turns every line into one \<^verbatim>\<open>stdout\<close> event, whose direct spawn fails with
  \<^verbatim>\<open>ENOENT\<close> and whose spawn through Node succeeds with process 4242.
\<close>

definition demo_parse :: "string \<Rightarrow> string \<Rightarrow> string \<Rightarrow> CliOutputEvent list" where
  "demo_parse dat p sid = [\<lparr>ev_panelId = p, ev_sessionId = sid, ev_type = stdout, ev_data = Text dat\<rparr>]"

definition demo_env :: env where
  "demo_env =
     \<lparr>getCliToolName = ''Claude'',
      testCliAvailability =
        (\<lambda>customPath. Inr \<lparr>available = False, error = Some ''not found'', version = None, path = None\<rparr>),
      buildCommandArgs = (\<lambda>options. [''--print'', opt_prompt options]),
      getCliExecutablePath = Inr ''/usr/bin/claude'',
      parseCliOutput = demo_parse,
      initializeCliEnvironment = (\<lambda>options. Inr []),
      osPlatform = Linux,
      dateNow = (\<lambda>k. 1000 + int k),
      claudeExecutablePath = Some ''/opt/claude'',
      getShellPath = ''/usr/local/bin:/usr/bin'',
      processEnv = [(''HOME'', ''/root'')],
      findNodeExecutable = Inr ''/usr/bin/node'',
      findCliNodeScript = (\<lambda>command. Inr None),
      dirname = (\<lambda>file. ''/usr/bin''),
      ptyLoaded = True,
      ptySpawn =
        (\<lambda>file args cwd envmap.
           if file = ''/usr/bin/node'' then Inr (IPty 4242) else Inl ''spawn ENOENT''),
      getAllDescendantPids = (\<lambda>k pid. if k = 2 then [77] else [77, 78]),
      execSync = (\<lambda>command. Inr ''sleep''),
      execAsync = (\<lambda>command. Inl ''Operation not permitted''),
      processKill = (\<lambda>pid sig. Inr ()),
      ptyKill = (\<lambda>ptyProcess. Inr ())\<rparr>"

definition new_manager :: manager where
  "new_manager =
     \<lparr>processes = [], availabilityCache = None, globalFlags = (\<lambda>key. False), trace = []\<rparr>"

text \<open>
  An operation runs with actions in \<open>Q\<close> when, from every manager, it returns a value and
  changes nothing but the trace, to which it adds actions that all satisfy \<open>Q\<close>.
\<close>

definition runs :: "(action \<Rightarrow> bool) \<Rightarrow> 'a io \<Rightarrow> bool" where
  "runs Q m = (\<forall>s. \<exists>v d. m s = (Inr v, add_trace d s) \<and> list_all Q d)"

text \<open>
  The actions of killing a process tree: commands, signals, delays, killing through the
  handle, and output events.
\<close>

fun killAction :: "action \<Rightarrow> bool" where
  "killAction (ExecAsync c) = True"
| "killAction (ProcessKill n sig) = True"
| "killAction (Sleep n) = True"
| "killAction (PtyKill h) = True"
| "killAction (Emitted (Output ev) ids) = True"
| "killAction a = False"

text \<open>The warning that \<open>killProcessTree\<close> emits when descendants remain, as a list of actions.\<close>

definition zombieActions :: "env \<Rightarrow> nat \<Rightarrow> string \<Rightarrow> string \<Rightarrow> string list \<Rightarrow> action list" where
  "zombieActions e pid p sid ids =
     (if getAllDescendantPids e 2 pid = [] then []
      else [Emitted (Output (zombieWarning e p sid (getAllDescendantPids e 2 pid))) ids])"

text \<open>
  The actions of the exit handler between the sweep of the orphans and the cleanup: the
  flush of the buffer and the report of a failure.
\<close>

definition flushActions :: "env \<Rightarrow> handler_state \<Rightarrow> string \<Rightarrow> string \<Rightarrow> string list \<Rightarrow> action list" where
  "flushActions e h p sid ids =
     (if js_trim (buffer h) \<noteq> [] then parseActions e ids (buffer h) p sid else [])"

definition failureEvent :: "env \<Rightarrow> handler_state \<Rightarrow> string \<Rightarrow> string \<Rightarrow> int \<Rightarrow> int option \<Rightarrow> event" where
  "failureEvent e h p sid exitCode sig =
     (if \<not> hasReceivedOutput h then
        Output \<lparr>ev_panelId = p, ev_sessionId = sid, ev_type = json,
          ev_data = SessionMessage ''error''
            (getCliToolName e @ '' failed to start (exit code: '' @ show_int exitCode @ '')'')
            (join [newline]
               [''This usually means '' @ getCliToolName e
                  @ '' is not installed properly or not found in your PATH.'',
                [],
                ''Please ensure:'',
                ''1. '' @ getCliToolName e @ '' is installed'',
                ''2. The '' @ [CHR 0x22] @ getCliToolName e @ [CHR 0x22]
                  @ '' command is available in your terminal'',
                ''3. Your PATH environment variable includes the installation directory'',
                [],
                ''Exit code: '' @ show_int exitCode
                  @ (case sig of
                       None \<Rightarrow> []
                     | Some n \<Rightarrow> if n \<noteq> 0 then '', Signal: '' @ show_int n else []),
                [],
                ''You can also set a custom executable path in the Settings.''])\<rparr>
      else
        Output \<lparr>ev_panelId = p, ev_sessionId = sid, ev_type = json,
          ev_data = SessionMessage ''error''
            (getCliToolName e @ '' exited with error (exit code: '' @ show_int exitCode @ '')'')
            (runtimeFailureDetails (lastOutput h))\<rparr>)"

definition failureActions ::
  "env \<Rightarrow> handler_state \<Rightarrow> string \<Rightarrow> string \<Rightarrow> int \<Rightarrow> int option \<Rightarrow> string list \<Rightarrow> action list" where
  "failureActions e h p sid exitCode sig ids =
     (if exitCode \<noteq> 0 then [Emitted (failureEvent e h p sid exitCode sig) ids] else [])"

text \<open>Calls of the tool's parser; the exit event and the cleanup of the tool's resources.\<close>

fun isParseCall :: "action \<Rightarrow> bool" where
  "isParseCall (ParseCliOutput dat p sid) = True"
| "isParseCall a = False"

fun isExitOrCleanup :: "action \<Rightarrow> bool" where
  "isExitOrCleanup (Emitted (Exit p sid exitCode sig) ids) = True"
| "isExitOrCleanup (CleanupCliResources sid) = True"
| "isExitOrCleanup a = False"

text \<open>
  Two more situations for the examples: no process has children, and panel \<open>p1\<close> is
  registered with process 4242.
\<close>

definition quiet_env :: env where
  "quiet_env = demo_env\<lparr>getAllDescendantPids := (\<lambda>k pid. [])\<rparr>"

definition running_manager :: manager where
  "running_manager =
     new_manager\<lparr>processes :=
       [(''p1'', \<lparr>process = IPty 4242, panelId = ''p1'', sessionId = ''s1'',
                  worktreePath = ''/tmp/wt''\<rparr>)]\<rparr>"

text \<open>
  For the examples of the cache: what the check of \<open>demo_env\<close> returns, the manager after
  one probe, and the same environment five minutes and more later.
\<close>

definition demo_unavailable :: availability where
  "demo_unavailable = \<lparr>available = False, error = Some ''not found'', version = None, path = None\<rparr>"

definition demo_cached :: manager where
  "demo_cached =
     new_manager\<lparr>availabilityCache := Some \<lparr>result = demo_unavailable, timestamp = 1001\<rparr>,
                 trace := [TestCliAvailability (Some ''/opt/claude'')]\<rparr>"

definition late_env :: env where
  "late_env = demo_env\<lparr>dateNow := (\<lambda>k. 400000)\<rparr>"

definition demo_options :: CliSpawnOptions where
  "demo_options =
     \<lparr>opt_panelId = ''p1'', opt_sessionId = ''s1'', opt_worktreePath = ''/tmp/wt'',
      opt_prompt = ''hello'', opt_isResume = None\<rparr>"

text \<open>
  For the spawn: the delay before an attempt on Linux (lines 577-579) as a list of
  actions, the outcome and the actions of the attempt through Node, the spawn attempts
  among the actions, and the message of the error that \<open>spawnFailed\<close> throws.
\<close>

definition sleepActions :: "env \<Rightarrow> manager \<Rightarrow> action list" where
  "sleepActions e s = (if osPlatform e = Linux \<and> length (processes s) > 0 then [Sleep 500] else [])"

definition fallbackResult ::
  "env \<Rightarrow> string \<Rightarrow> string list \<Rightarrow> string \<Rightarrow> (string \<times> string) list \<Rightarrow> IPty res" where
  "fallbackResult e command args cwd envmap =
     (case findNodeExecutable e of
        Inl err \<Rightarrow> Inl err
      | Inr nodePath \<Rightarrow> ptySpawn e nodePath (nodeArgsFor e command args) cwd envmap)"

definition fallbackActions ::
  "env \<Rightarrow> string \<Rightarrow> string list \<Rightarrow> string \<Rightarrow> (string \<times> string) list \<Rightarrow> action list" where
  "fallbackActions e command args cwd envmap =
     (case findNodeExecutable e of
        Inl err \<Rightarrow> []
      | Inr nodePath \<Rightarrow> [PtySpawn nodePath (nodeArgsFor e command args) cwd envmap])"

fun isPtySpawn :: "action \<Rightarrow> bool" where
  "isPtySpawn (PtySpawn file args cwd envmap) = True"
| "isPtySpawn a = False"

definition spawnErrorMessage :: "env \<Rightarrow> string \<Rightarrow> string" where
  "spawnErrorMessage e msg = ''Failed to spawn '' @ getCliToolName e @ '': '' @ msg"

definition spawnOutcome :: "env \<Rightarrow> IPty res \<Rightarrow> IPty res" where
  "spawnOutcome e r = (case r of Inl msg \<Rightarrow> Inl (spawnErrorMessage e msg) | Inr h \<Rightarrow> Inr h)"

text \<open>
  For the examples of the spawn: an environment where every spawn is refused, one where
  the direct spawn fails with \<^verbatim>\<open>ENOENT\<close> and Node fails too, and a manager of a process
  in which the fallback flag of the tool is already set.
\<close>

definition denied_env :: env where
  "denied_env = demo_env\<lparr>ptySpawn := (\<lambda>file args cwd envmap. Inl ''Permission denied'')\<rparr>"

definition broken_node_env :: env where
  "broken_node_env =
     demo_env\<lparr>ptySpawn :=
       (\<lambda>file args cwd envmap.
          if file = ''/usr/bin/node'' then Inl ''node: bad option'' else Inl ''spawn ENOENT'')\<rparr>"

definition sticky_manager :: manager where
  "sticky_manager = new_manager\<lparr>globalFlags := (\<lambda>key. key = ''claudeNeedsNodeFallback'')\<rparr>"

text \<open>
  The invariant of the registry: every entry is stored under its own panel id. An operation
  keeps it when it leads from a manager that satisfies it to one that does.
\<close>

definition keysMatch :: "manager \<Rightarrow> bool" where
  "keysMatch s = list_all (\<lambda>kv. panelId (snd kv) = fst kv) (processes s)"

definition keeps :: "'a io \<Rightarrow> bool" where
  "keeps m = (\<forall>s. keysMatch s \<longrightarrow> keysMatch (snd (m s)))"

text \<open>
  For the example of the registry: the tool is available, and the manager after starting
  panel \<open>p1\<close>.
\<close>

definition ok_env :: env where
  "ok_env =
     demo_env\<lparr>testCliAvailability :=
       (\<lambda>customPath. Inr \<lparr>available = True, error = None, version = Some ''1.2.3'',
                            path = Some ''/usr/bin/claude''\<rparr>)\<rparr>"

definition demo_started :: manager where
  "demo_started = snd (spawnCliProcess ok_env demo_options new_manager)"

section \<open>Basic facts about operations\<close>

lemma add_trace_simps [simp]:
  "processes (add_trace d s) = processes s"
  "availabilityCache (add_trace d s) = availabilityCache s"
  "globalFlags (add_trace d s) = globalFlags s"
  "trace (add_trace d s) = trace s @ d"
  "getAllProcesses (add_trace d s) = getAllProcesses s"
  "add_trace d (add_trace d' s) = add_trace (d' @ d) s"
  "add_trace [] s = s"
  by (simp_all add: add_trace_def getAllProcesses_def)

lemma ret_apply: "ret v s = (Inr v, s)"
  by (simp add: ret_def)

lemma throw_apply: "throw msg s = (Inl msg, s)"
  by (simp add: throw_def)

lemma await_apply: "await r s = (r, s)"
  by (simp add: await_def)

lemma effect_apply: "effect a s = (Inr (), add_trace [a] s)"
  by (simp add: effect_def add_trace_def)

lemma emit_apply: "emit ev s = (Inr (), add_trace [Emitted ev (getAllProcesses s)] s)"
  by (simp add: emit_def add_trace_def)

lemma bind_apply:
  "bind m f s = (case m s of (Inl err, s') \<Rightarrow> (Inl err, s') | (Inr v, s') \<Rightarrow> f v s')"
  by (simp add: bind_def)

lemma seq_apply:
  "seq m n s = (case m s of (Inl err, s') \<Rightarrow> (Inl err, s') | (Inr v, s') \<Rightarrow> n s')"
  by (simp add: seq_def bind_def)

lemma try_catch_apply:
  "try_catch m h s = (case m s of (Inl err, s') \<Rightarrow> h err s' | (Inr v, s') \<Rightarrow> (Inr v, s'))"
  by (simp add: try_catch_def)

lemma attempt_apply: "attempt a r s = (r, add_trace [a] s)"
  by (simp add: attempt_def seq_apply effect_apply await_apply)

lemmas io_simps =
  ret_apply throw_apply await_apply effect_apply emit_apply bind_apply seq_apply try_catch_apply
  attempt_apply

text \<open>A loop whose body only adds actions adds the actions of its iterations, in order.\<close>

lemma for_each_actions:
  assumes "\<And>x s. f x s = (Inr (), add_trace (g (getAllProcesses s) x) s)"
  shows "for_each xs f s = (Inr (), add_trace (concat (map (g (getAllProcesses s)) xs)) s)"
proof (induction xs arbitrary: s)
  case Nil
  show ?case by (simp add: ret_apply)
next
  case (Cons x xs)
  show ?case using assms [of x s] by (simp add: seq_apply Cons)
qed

section \<open>The output pipeline: lines and chunks\<close>

lemma for_each_emit:
  "for_each evs (\<lambda>ev. emit (Output ev)) s
   = (Inr (), add_trace (emitActions (getAllProcesses s) evs) s)"
  using for_each_actions [of "\<lambda>ev. emit (Output ev)" "\<lambda>ids ev. [Emitted (Output ev) ids]" evs s]
  by (simp add: emit_apply emitActions_def)

lemma parseAndEmit_apply:
  "parseAndEmit e dat p sid s
   = (Inr (), add_trace (parseActions e (getAllProcesses s) dat p sid) s)"
  by (simp add: parseAndEmit_def io_simps for_each_emit parseActions_def)

lemma lineActions_append:
  "lineActions e ids p sid (xs @ ys) = lineActions e ids p sid xs @ lineActions e ids p sid ys"
  by (simp add: lineActions_def)

lemma for_each_lines:
  "for_each lines
     (\<lambda>line. if js_trim line \<noteq> [] then parseAndEmit e (line @ [newline]) p sid else ret ()) s
   = (Inr (), add_trace (lineActions e (getAllProcesses s) p sid lines) s)"
  unfolding lineActions_def
  by (rule for_each_actions) (simp add: parseAndEmit_apply ret_apply)

lemma js_split_nonempty: "js_split c xs \<noteq> []"
  by (induction xs) auto

lemma onData_apply:
  "onData e p sid dat h s =
     (Inr \<lparr>hasReceivedOutput = True, lastOutput = lastOutput h @ dat,
           buffer = last (js_split newline (buffer h @ dat))\<rparr>,
      add_trace (lineActions e (getAllProcesses s) p sid
                   (butlast (js_split newline (buffer h @ dat)))) s)"
  by (simp add: onData_def Let_def io_simps for_each_lines pop_or_empty_def js_split_nonempty)

text \<open>
  Splitting a text at its newlines can be done in two steps: the lines of the first part but
  the last, then the lines of that last fragment followed by the second part.
\<close>

lemma js_split_append:
  "js_split c (xs @ ys) = butlast (js_split c xs) @ js_split c (last (js_split c xs) @ ys)"
proof (induction xs)
  case Nil
  show ?case by simp
next
  case (Cons x xs)
  have ne: "js_split c xs \<noteq> []" by (rule js_split_nonempty)
  show ?case
  proof (cases "x = c")
    case True
    then show ?thesis using Cons ne by simp
  next
    case False
    show ?thesis
    proof (cases "js_split c xs")
      case Nil
      with ne show ?thesis by simp
    next
      case (Cons l ls)
      then show ?thesis using False Cons.IH
        by (cases ls) (auto simp: js_split_nonempty)
    qed
  qed
qed

lemma last_js_split_append:
  "last (js_split c (xs @ ys)) = last (js_split c (last (js_split c xs) @ ys))"
  by (subst js_split_append) (simp add: js_split_nonempty)

lemma butlast_js_split_append:
  "butlast (js_split c (xs @ ys)) =
   butlast (js_split c xs) @ butlast (js_split c (last (js_split c xs) @ ys))"
  by (subst js_split_append) (simp add: js_split_nonempty butlast_append)

lemma last_js_split_append3:
  "last (js_split c (xs @ ys @ zs)) = last (js_split c (last (js_split c (xs @ ys)) @ zs))"
  using last_js_split_append [of c "xs @ ys" zs] by simp

lemma butlast_js_split_append3:
  "butlast (js_split c (xs @ ys @ zs)) =
   butlast (js_split c (xs @ ys)) @ butlast (js_split c (last (js_split c (xs @ ys)) @ zs))"
  using butlast_js_split_append [of c "xs @ ys" zs] by simp

lemma onData_onData:
  "bind (onData e p sid d1 h) (onData e p sid d2) s = onData e p sid (d1 @ d2) h s"
  by (simp add: bind_apply onData_apply last_js_split_append3 butlast_js_split_append3
      lineActions_append)

lemma feedChunks_concat:
  "feedChunks e p sid (c # cs) h s = onData e p sid (concat (c # cs)) h s"
proof (induction cs arbitrary: c h s)
  case Nil
  show ?case by (simp add: io_simps onData_apply)
next
  case (Cons c' cs)
  have "feedChunks e p sid (c # c' # cs) h s
        = bind (onData e p sid c h) (feedChunks e p sid (c' # cs)) s"
    by (simp only: feedChunks.simps)
  also have "\<dots> = bind (onData e p sid c h) (onData e p sid (concat (c' # cs))) s"
    by (simp only: bind_apply Cons)
  also have "\<dots> = onData e p sid (c @ concat (c' # cs)) h s"
    by (rule onData_onData)
  finally show ?case by simp
qed

lemma feedChunks_initial:
  "snd (feedChunks e p sid chunks initial_handler_state s)
   = snd (onData e p sid (concat chunks) initial_handler_state s)"
proof (cases chunks)
  case Nil
  then show ?thesis by (simp add: ret_apply onData_apply initial_handler_state_def lineActions_def)
next
  case (Cons c cs)
  then show ?thesis by (simp only: feedChunks_concat)
qed

section \<open>Operations that only add to the trace\<close>

lemma runsI:
  assumes "\<And>s. \<exists>v d. m s = (Inr v, add_trace d s) \<and> list_all Q d"
  shows "runs Q m"
  using assms by (simp add: runs_def)

lemma runsD: "runs Q m \<Longrightarrow> \<exists>v d. m s = (Inr v, add_trace d s) \<and> list_all Q d"
  by (simp add: runs_def)

lemma runs_ret: "runs Q (ret v)"
  by (rule runsI) (rule exI [of _ v], rule exI [of _ "[]"], simp add: ret_apply)

lemma runs_effect: "Q a \<Longrightarrow> runs Q (effect a)"
  by (rule runsI) (rule exI [of _ "()"], rule exI [of _ "[a]"], simp add: effect_apply)

lemma runs_emit: "(\<And>ids. Q (Emitted ev ids)) \<Longrightarrow> runs Q (emit ev)"
  by (rule runsI)
    (rule exI [of _ "()"], rule exI [of _ "[Emitted ev (getAllProcesses _)]"], simp add: emit_apply)

lemma runs_bind:
  assumes "runs Q m" and "\<And>v. runs Q (f v)"
  shows "runs Q (bind m f)"
proof (rule runsI)
  fix s
  from runsD [OF assms(1)] obtain v d where 1: "m s = (Inr v, add_trace d s)" "list_all Q d"
    by blast
  from runsD [OF assms(2)] obtain w d' where
    2: "f v (add_trace d s) = (Inr w, add_trace d' (add_trace d s))" "list_all Q d'"
    by blast
  have "bind m f s = (Inr w, add_trace (d @ d') s)" using 1 2 by (simp add: bind_apply)
  moreover have "list_all Q (d @ d')" using 1 2 by simp
  ultimately show "\<exists>v d. bind m f s = (Inr v, add_trace d s) \<and> list_all Q d" by blast
qed

lemma runs_seq: "runs Q m \<Longrightarrow> runs Q n \<Longrightarrow> runs Q (seq m n)"
  unfolding seq_def by (rule runs_bind)

lemma runs_try_attempt:
  assumes "Q a" and "\<And>err. runs Q (h err)"
  shows "runs Q (try_catch (attempt a r) h)"
proof (rule runsI)
  fix s
  show "\<exists>v d. try_catch (attempt a r) h s = (Inr v, add_trace d s) \<and> list_all Q d"
  proof (cases r)
    case (Inl err)
    from runsD [OF assms(2)] obtain w d' where
      2: "h err (add_trace [a] s) = (Inr w, add_trace d' (add_trace [a] s))" "list_all Q d'"
      by blast
    have "try_catch (attempt a r) h s = (Inr w, add_trace (a # d') s)"
      using Inl 2 by (simp add: try_catch_apply attempt_apply)
    moreover have "list_all Q (a # d')" using assms(1) 2 by simp
    ultimately show ?thesis by blast
  next
    case (Inr v)
    have "try_catch (attempt a r) h s = (Inr v, add_trace [a] s)"
      using Inr by (simp add: try_catch_apply attempt_apply)
    moreover have "list_all Q [a]" using assms(1) by simp
    ultimately show ?thesis by blast
  qed
qed

lemma runs_ignoring_attempt: "Q a \<Longrightarrow> runs Q (ignoring (attempt a r))"
  unfolding ignoring_def by (rule runs_try_attempt) (simp_all add: runs_ret)

lemma runs_for_each:
  assumes "\<And>x. runs Q (f x)"
  shows "runs Q (for_each xs f)"
  by (induction xs) (simp_all add: runs_ret runs_seq assms)

section \<open>Killing a process tree: what it does\<close>

lemma runs_killCommands: "runs killAction (killCommands e pid ds)"
  unfolding killCommands_def
  by (auto intro!: runs_seq runs_try_attempt runs_ignoring_attempt runs_for_each runs_effect)


lemma runs_killViaPty: "runs killAction (ignoring (killViaPty e p))"
proof (rule runsI)
  fix s
  show "\<exists>v d. ignoring (killViaPty e p) s = (Inr v, add_trace d s) \<and> list_all killAction d"
  proof (cases "map_of (processes s) p")
    case None
    then have "ignoring (killViaPty e p) s = (Inr (), add_trace [] s)"
      by (simp add: ignoring_def killViaPty_def io_simps)
    moreover have "list_all killAction []" by simp
    ultimately show ?thesis by blast
  next
    case (Some cp)
    then have "ignoring (killViaPty e p) s = (Inr (), add_trace [PtyKill (process cp)] s)"
      by (cases "ptyKill e (process cp)") (simp_all add: ignoring_def killViaPty_def io_simps)
    moreover have "list_all killAction [PtyKill (process cp)]" by simp
    ultimately show ?thesis by blast
  qed
qed

lemma killAndVerify_apply:
  "\<exists>d. killAndVerify e pid p sid ds s
        = (Inr (getAllDescendantPids e 2 pid = []),
           add_trace (d @ Sleep 500 # zombieActions e pid p sid (getAllProcesses s)) s)
      \<and> list_all killAction d"
proof -
  from runsD [OF runs_killCommands] obtain v d where
    1: "killCommands e pid ds s = (Inr v, add_trace d s)" "list_all killAction d"
    by blast
  have "killAndVerify e pid p sid ds s
        = (Inr (getAllDescendantPids e 2 pid = []),
           add_trace (d @ Sleep 500 # zombieActions e pid p sid (getAllProcesses s)) s)"
    using 1(1) by (simp add: killAndVerify_def Let_def io_simps zombieActions_def)
  with 1(2) show ?thesis by blast
qed

lemma killProcessTree_apply:
  "\<exists>d d'. killProcessTree e pid p sid s
        = (Inr (getAllDescendantPids e 2 pid = []),
           add_trace (d @ Sleep 500 # zombieActions e pid p sid (getAllProcesses s) @ d') s)
      \<and> list_all killAction d \<and> list_all killAction d'"
proof -
  let ?s1 = "\<lambda>d. add_trace (d @ Sleep 500 # zombieActions e pid p sid (getAllProcesses s)) s"
  from killAndVerify_apply [of e pid p sid "getAllDescendantPids e 1 pid" s] obtain d where
    1: "killAndVerify e pid p sid (getAllDescendantPids e 1 pid) s
          = (Inr (getAllDescendantPids e 2 pid = []), ?s1 d)" "list_all killAction d"
    by blast
  from runsD [OF runs_killViaPty, of e p "?s1 d"] obtain v d' where
    2: "ignoring (killViaPty e p) (?s1 d) = (Inr v, add_trace d' (?s1 d))" "list_all killAction d'"
    by blast
  have "killProcessTree e pid p sid s
        = (Inr (getAllDescendantPids e 2 pid = []),
           add_trace (d @ Sleep 500 # zombieActions e pid p sid (getAllProcesses s) @ d') s)"
    using 1(1) 2(1) by (simp add: killProcessTree_def Let_def io_simps)
  with 1(2) 2(2) show ?thesis by blast
qed

lemma list_all_zombieActions: "list_all killAction (zombieActions e pid p sid ids)"
  by (simp add: zombieActions_def)

lemma runs_killProcessTree: "runs killAction (killProcessTree e pid p sid)"
proof (rule runsI)
  fix s
  from killProcessTree_apply [of e pid p sid s] obtain d d' where
    1: "killProcessTree e pid p sid s
        = (Inr (getAllDescendantPids e 2 pid = []),
           add_trace (d @ Sleep 500 # zombieActions e pid p sid (getAllProcesses s) @ d') s)"
       "list_all killAction d" "list_all killAction d'"
    by blast
  have "list_all killAction (d @ Sleep 500 # zombieActions e pid p sid (getAllProcesses s) @ d')"
    using 1(2,3) by (simp add: list_all_zombieActions)
  with 1(1) show "\<exists>v d. killProcessTree e pid p sid s = (Inr v, add_trace d s) \<and> list_all killAction d"
    by blast
qed

section \<open>Strings that contain other strings\<close>


lemma str_includes_prefix: "str_includes (b @ c) b"
proof (cases "b @ c")
  case Nil
  then show ?thesis by simp
next
  case (Cons x xs)
  have "take (length b) (b @ c) = b" by simp
  then show ?thesis unfolding Cons by simp
qed

lemma str_includes_append: "str_includes (a @ b @ c) b"
  by (induction a) (simp_all add: str_includes_prefix)

lemma str_includes_mid: "t = a @ b @ c \<Longrightarrow> str_includes t b"
  by (simp add: str_includes_append)

lemma join_member: "x \<in> set xs \<Longrightarrow> \<exists>a c. join sep xs = a @ x @ c"
proof (induction sep xs rule: join.induct)
  case (1 sep)
  then show ?case by simp
next
  case (2 sep y)
  then have "join sep [y] = [] @ x @ []" by simp
  then show ?case by blast
next
  case (3 sep y z zs)
  show ?case
  proof (cases "x = y")
    case True
    then have "join sep (y # z # zs) = [] @ x @ (sep @ join sep (z # zs))" by simp
    then show ?thesis by blast
  next
    case False
    with 3 obtain a c where "join sep (z # zs) = a @ x @ c" by auto
    then have "join sep (y # z # zs) = (y @ sep @ a) @ x @ c" by simp
    then show ?thesis by blast
  qed
qed

lemma processName_nonempty: "processName e q \<noteq> []"
  by (simp add: processName_def Let_def split: sum.splits)

lemma processReport_lists:
  assumes "q \<in> set pids"
  shows "\<exists>a c. processReport (getProcessInfo e pids)
                = a @ (processName e q @ ''('' @ show_nat q @ '')'') @ c"
proof -
  have "(processName e q @ ''('' @ show_nat q @ '')'')
        \<in> set (map (\<lambda>pn. (if snd pn \<noteq> [] then snd pn else ''unknown'') @ ''('' @ show_nat (fst pn) @ '')'')
                 (getProcessInfo e pids))"
    using assms by (auto simp: getProcessInfo_def processName_nonempty image_iff)
  then show ?thesis unfolding processReport_def by (rule join_member)
qed

lemma zombieWarning_lists:
  assumes "q \<in> set pids"
  shows "\<exists>t. ev_data (zombieWarning e p sid pids) = Text t
             \<and> str_includes t (processName e q @ ''('' @ show_nat q @ '')'')"
proof -
  from processReport_lists [OF assms] obtain a c where
    r: "processReport (getProcessInfo e pids) = a @ (processName e q @ ''('' @ show_nat q @ '')'') @ c"
    by blast
  let ?pre = "[newline] @ ''[WARNING] Failed to terminate ''
                  @ show_nat (length pids) @ '' child process''
                  @ plural (length pids) @ '': ''"
  let ?post = "[newline] @ ''Please manually kill these processes.'' @ [newline]"
  have "ev_data (zombieWarning e p sid pids)
        = Text ((?pre @ a) @ (processName e q @ ''('' @ show_nat q @ '')'') @ (c @ ?post))"
    by (simp add: zombieWarning_def r)
  then show ?thesis using str_includes_append by blast
qed

section \<open>The exit handler: what it does\<close>

lemma runs_sweepOrphans: "runs killAction (sweepOrphans e ptyProcess p sid)"
  unfolding sweepOrphans_def Let_def
  by (auto intro!: runs_bind runs_killProcessTree runs_emit runs_ret)

lemma failure_apply:
  "(if exitCode \<noteq> 0 then
      (if \<not> hasReceivedOutput h
       then handleProcessStartupFailure e exitCode sig p sid (lastOutput h)
       else handleProcessRuntimeFailure e exitCode sig p sid (lastOutput h))
    else ret ()) s
   = (Inr (), add_trace (failureActions e h p sid exitCode sig (getAllProcesses s)) s)"
  by (simp add: handleProcessStartupFailure_def handleProcessRuntimeFailure_def io_simps
      failureActions_def failureEvent_def)

lemma flush_apply:
  "(if js_trim (buffer h) \<noteq> [] then parseAndEmit e (buffer h) p sid else ret ()) s
   = (Inr (), add_trace (flushActions e h p sid (getAllProcesses s)) s)"
  by (simp add: parseAndEmit_apply ret_apply flushActions_def)

lemma processes_delete_apply:
  "processes_delete k s = (Inr (), s\<lparr>processes := AList.delete k (processes s)\<rparr>)"
  by (simp add: processes_delete_def)

lemma onExit_apply:
  "\<exists>d. list_all killAction d \<and>
       onExit e ptyProcess p sid h exitCode sig s
       = (Inr (),
          (add_trace (d @ flushActions e h p sid (getAllProcesses s)
                        @ failureActions e h p sid exitCode sig (getAllProcesses s)
                        @ [CleanupCliResources sid,
                           Emitted (Exit p sid (Some exitCode) sig) (getAllProcesses s)]) s)
          \<lparr>processes := AList.delete p (processes s)\<rparr>)"
proof -
  from runsD [OF runs_sweepOrphans] obtain v d where
    1: "sweepOrphans e ptyProcess p sid s = (Inr v, add_trace d s)" "list_all killAction d"
    by blast
  have "onExit e ptyProcess p sid h exitCode sig s
       = (Inr (),
          (add_trace (d @ flushActions e h p sid (getAllProcesses s)
                        @ failureActions e h p sid exitCode sig (getAllProcesses s)
                        @ [CleanupCliResources sid,
                           Emitted (Exit p sid (Some exitCode) sig) (getAllProcesses s)]) s)
          \<lparr>processes := AList.delete p (processes s)\<rparr>)"
    unfolding onExit_def
    apply (subst seq_apply)
    apply (simp only: 1 prod.case sum.case)
    apply (subst seq_apply)
    apply (simp only: flush_apply prod.case sum.case)
    apply (subst seq_apply)
    apply (simp only: failure_apply prod.case sum.case)
    apply (simp add: seq_apply effect_apply emit_apply processes_delete_apply)
    done
  with 1(2) show ?thesis by blast
qed

lemma killAction_not_parse: "killAction a \<Longrightarrow> \<not> isParseCall a"
  by (cases a) auto

lemma killAction_not_exit: "killAction a \<Longrightarrow> \<not> isExitOrCleanup a"
  by (cases a rule: killAction.cases) auto

lemma substring_negative: "substring s (- 500) = s"
  by (simp add: substring_def)

lemma onExit_no_orphans:
  assumes "getAllDescendantPids e 0 (pty_pid ptyProcess) = []"
  shows "onExit e ptyProcess p sid h exitCode sig s
       = (Inr (),
          (add_trace (flushActions e h p sid (getAllProcesses s)
                        @ failureActions e h p sid exitCode sig (getAllProcesses s)
                        @ [CleanupCliResources sid,
                           Emitted (Exit p sid (Some exitCode) sig) (getAllProcesses s)]) s)
          \<lparr>processes := AList.delete p (processes s)\<rparr>)"
proof -
  have 1: "sweepOrphans e ptyProcess p sid s = (Inr (), s)"
    using assms by (simp add: sweepOrphans_def Let_def ret_apply)
  show ?thesis
    unfolding onExit_def
    apply (subst seq_apply)
    apply (simp only: 1 prod.case sum.case)
    apply (subst seq_apply)
    apply (simp only: flush_apply prod.case sum.case)
    apply (subst seq_apply)
    apply (simp only: failure_apply prod.case sum.case)
    apply (simp add: seq_apply effect_apply emit_apply processes_delete_apply)
    done
qed

lemma isPanelRunning_iff: "isPanelRunning s p = (p \<in> set (getAllProcesses s))"
  by (simp add: isPanelRunning_def getAllProcesses_def map_of_eq_None_iff)

lemma not_parse_emitActions: "list_all (\<lambda>a. \<not> isParseCall a) (emitActions ids evs)"
  by (auto simp: emitActions_def list_all_iff)

lemma not_parse_failureActions:
  "list_all (\<lambda>a. \<not> isParseCall a) (failureActions e h p sid exitCode sig ids)"
  by (simp add: failureActions_def)

lemma not_exit_flushActions:
  "list_all (\<lambda>a. \<not> isExitOrCleanup a) (flushActions e h p sid ids)"
  by (auto simp: flushActions_def parseActions_def emitActions_def list_all_iff)

lemma not_exit_failureActions:
  "list_all (\<lambda>a. \<not> isExitOrCleanup a) (failureActions e h p sid exitCode sig ids)"
  by (simp add: failureActions_def failureEvent_def)

lemma list_all_mono: "list_all P xs \<Longrightarrow> (\<And>x. P x \<Longrightarrow> Q x) \<Longrightarrow> list_all Q xs"
  by (auto simp: list_all_iff)

section \<open>The availability probe: hits and misses\<close>

lemma freshAvailability_apply:
  "freshAvailability e s =
     (case testCliAvailability e (claudeExecutablePath e) of
        Inl err \<Rightarrow> (Inl err, add_trace [TestCliAvailability (claudeExecutablePath e)] s)
      | Inr a \<Rightarrow>
          (Inr a, (add_trace [TestCliAvailability (claudeExecutablePath e)] s)
                    \<lparr>availabilityCache := Some \<lparr>result = a, timestamp = dateNow e 1\<rparr>\<rparr>))"
  by (simp add: freshAvailability_def Let_def io_simps split: sum.splits)

lemma getCachedAvailability_hit:
  "availabilityCache s = Some c \<Longrightarrow> dateNow e 0 - timestamp c < CACHE_TTL
   \<Longrightarrow> getCachedAvailability e s = (Inr (result c), s)"
  by (simp add: getCachedAvailability_def ret_apply)

lemma getCachedAvailability_miss:
  "availabilityCache s = None \<or> (\<exists>c. availabilityCache s = Some c \<and> CACHE_TTL \<le> dateNow e 0 - timestamp c)
   \<Longrightarrow> getCachedAvailability e s = freshAvailability e s"
  by (auto simp: getCachedAvailability_def)

lemma getCachedAvailability_cases:
  "getCachedAvailability e s = freshAvailability e s \<or>
   (\<exists>c. availabilityCache s = Some c \<and> getCachedAvailability e s = (Inr (result c), s))"
  by (simp add: getCachedAvailability_def ret_apply split: option.splits)

lemma getCachedAvailability_result:
  assumes "getCachedAvailability e s = (Inr a, s1)"
  shows "(s1 = s \<or> s1 = (add_trace [TestCliAvailability (claudeExecutablePath e)] s)
                    \<lparr>availabilityCache := Some \<lparr>result = a, timestamp = dateNow e 1\<rparr>\<rparr>)
         \<and> (\<exists>c. availabilityCache s1 = Some c \<and> result c = a)"
  using assms getCachedAvailability_cases [of e s]
  by (auto simp: freshAvailability_apply split: sum.splits)

lemma getCachedAvailability_processes:
  "processes (snd (getCachedAvailability e s)) = processes s"
  using getCachedAvailability_cases [of e s]
  by (auto simp: freshAvailability_apply split: sum.splits)

lemma getAllProcesses_cache [simp]:
  "getAllProcesses (s\<lparr>availabilityCache := c\<rparr>) = getAllProcesses s"
  by (simp add: getAllProcesses_def)

section \<open>The failure of the start when the tool is unavailable\<close>

lemma handleCliNotAvailable_apply:
  "handleCliNotAvailable e a p sid s =
     (Inr (),
      add_trace
        [Emitted (Output \<lparr>ev_panelId = p, ev_sessionId = sid, ev_type = json,
                          ev_data = SessionMessage ''error'' (getCliToolName e @ '' not available'')
                                      (getCliNotAvailableMessage e (error a))\<rparr>)
           (getAllProcesses s),
         AddSessionError sid (getCliToolName e @ '' not available'')
           (show_opt (error a) @ [newline] @ ''Please install '' @ getCliToolName e
              @ '' or verify it is in your PATH.'')] s)"
  by (simp add: handleCliNotAvailable_def io_simps)

lemma str_includes_join: "x \<in> set xs \<Longrightarrow> str_includes (join sep xs) x"
proof -
  assume "x \<in> set xs"
  then obtain a c where "join sep xs = a @ x @ c" using join_member by blast
  then show ?thesis by (rule str_includes_mid)
qed

lemma message_lists_path:
  "str_includes (getCliNotAvailableMessage e err) (''Enhanced PATH searched: '' @ getShellPath e)"
  unfolding getCliNotAvailableMessage_def by (rule str_includes_join) simp

lemma message_lists_command:
  "str_includes (getCliNotAvailableMessage e err)
     (''Attempted command: '' @ getCliToolName e @ '' --version'')"
  unfolding getCliNotAvailableMessage_def by (rule str_includes_join) simp

lemma spawnCliProcess_unavailable:
  assumes "getCachedAvailability e s = (Inr a, s1)" and "\<not> available a"
  shows "spawnCliProcess e options s =
     (Inl (getCliToolName e @ '' CLI not available: '' @ show_opt (error a)),
      add_trace
        [Emitted (Output \<lparr>ev_panelId = opt_panelId options, ev_sessionId = opt_sessionId options,
                          ev_type = json,
                          ev_data = SessionMessage ''error'' (getCliToolName e @ '' not available'')
                                      (getCliNotAvailableMessage e (error a))\<rparr>)
           (getAllProcesses s1),
         AddSessionError (opt_sessionId options) (getCliToolName e @ '' not available'')
           (show_opt (error a) @ [newline] @ ''Please install '' @ getCliToolName e
              @ '' or verify it is in your PATH.''),
         Emitted (Error (opt_panelId options) (opt_sessionId options)
                    (getCliToolName e @ '' CLI not available: '' @ show_opt (error a)))
           (getAllProcesses s1)] s1)"
  using assms
  by (simp add: spawnCliProcess_def spawnCliProcessBody_def try_catch_apply bind_apply
      seq_apply handleCliNotAvailable_apply throw_apply emit_apply)

section \<open>The spawn loop, case by case\<close>

lemma sleepActions_simps [simp]:
  "sleepActions e (add_trace d s) = sleepActions e s"
  "sleepActions e (s\<lparr>globalFlags := f\<rparr>) = sleepActions e s"
  "sleepActions e (s\<lparr>trace := t\<rparr>) = sleepActions e s"
  by (simp_all add: sleepActions_def)

lemma nodeFallbackSpawn_apply:
  "nodeFallbackSpawn e command args cwd envmap s
   = (fallbackResult e command args cwd envmap,
      add_trace (fallbackActions e command args cwd envmap) s)"
  by (simp add: nodeFallbackSpawn_def Let_def io_simps fallbackResult_def fallbackActions_def
      split: sum.splits)

lemma spawnAttemptBody_direct:
  assumes "spawnAttempt = 0" and "\<not> globalFlags s (needsNodeFallbackKey e)"
  shows "spawnAttemptBody e command args cwd envmap spawnAttempt s
   = (ptySpawn e command args cwd envmap,
      add_trace (sleepActions e s @ [PtySpawn command args cwd envmap]) s)"
  using assms
  by (simp add: spawnAttemptBody_def seq_apply effect_apply ret_apply directSpawn_def
      attempt_apply sleepActions_def)

lemma spawnAttemptBody_fallback:
  assumes "spawnAttempt \<noteq> 0 \<or> globalFlags s (needsNodeFallbackKey e)"
  shows "spawnAttemptBody e command args cwd envmap spawnAttempt s
   = (fallbackResult e command args cwd envmap,
      add_trace (sleepActions e s @ fallbackActions e command args cwd envmap) s)"
  using assms
  by (auto simp: spawnAttemptBody_def seq_apply effect_apply ret_apply nodeFallbackSpawn_apply
      sleepActions_def)

lemma spawnFailed_apply: "spawnFailed e (Some msg) s = (Inl (spawnErrorMessage e msg), s)"
  by (simp add: spawnFailed_def throw_apply spawnErrorMessage_def show_opt_def)

lemma spawnLoop_second:
  "spawnLoop e command args cwd envmap (Suc 0) lastError s
   = (spawnOutcome e (fallbackResult e command args cwd envmap),
      add_trace (sleepActions e s @ fallbackActions e command args cwd envmap) s)"
  by (subst spawnLoop.simps)
     (simp add: spawnAttemptBody_fallback spawnFailed_apply spawnOutcome_def split: sum.splits)

lemma spawnLoop_sticky:
  assumes "globalFlags s (needsNodeFallbackKey e)"
  shows "spawnLoop e command args cwd envmap 0 None s
   = (spawnOutcome e (fallbackResult e command args cwd envmap),
      add_trace (sleepActions e s @ fallbackActions e command args cwd envmap) s)"
  using assms
  by (subst spawnLoop.simps)
     (simp add: spawnAttemptBody_fallback spawnFailed_apply spawnOutcome_def split: sum.splits)

lemma spawnLoop_direct_ok:
  assumes "\<not> globalFlags s (needsNodeFallbackKey e)"
    and "ptySpawn e command args cwd envmap = Inr h"
  shows "spawnLoop e command args cwd envmap 0 None s
   = (Inr h, add_trace (sleepActions e s @ [PtySpawn command args cwd envmap]) s)"
  using assms
  by (subst spawnLoop.simps) (simp add: spawnAttemptBody_direct)

lemma spawnLoop_direct_other:
  assumes "\<not> globalFlags s (needsNodeFallbackKey e)"
    and "ptySpawn e command args cwd envmap = Inl msg" and "\<not> isShebangError msg"
  shows "spawnLoop e command args cwd envmap 0 None s
   = (Inl (spawnErrorMessage e msg),
      add_trace (sleepActions e s @ [PtySpawn command args cwd envmap]) s)"
  using assms
  by (subst spawnLoop.simps) (simp add: spawnAttemptBody_direct spawnFailed_apply)

lemma spawnLoop_direct_shebang:
  assumes "\<not> globalFlags s (needsNodeFallbackKey e)"
    and "ptySpawn e command args cwd envmap = Inl msg" and "isShebangError msg"
  shows "spawnLoop e command args cwd envmap 0 None s
   = (spawnOutcome e (fallbackResult e command args cwd envmap),
      (add_trace (sleepActions e s @ [PtySpawn command args cwd envmap]
                  @ sleepActions e s @ fallbackActions e command args cwd envmap) s)
      \<lparr>globalFlags := (globalFlags s)(needsNodeFallbackKey e := True)\<rparr>)"
  using assms
  by (subst spawnLoop.simps)
     (simp add: spawnAttemptBody_direct spawnLoop_second add_trace_def)

lemma spawnPtyProcess_loaded:
  "ptyLoaded e \<Longrightarrow> spawnPtyProcess e command args cwd envmap
     = spawnLoop e command args cwd envmap 0 None"
  by (simp add: spawnPtyProcess_def)

lemma spawnPtyProcess_not_loaded:
  "\<not> ptyLoaded e \<Longrightarrow> spawnPtyProcess e command args cwd envmap s
     = (Inl ''node-pty not available'', s)"
  by (simp add: spawnPtyProcess_def throw_apply)

text \<open>The four ways a call of \<open>spawnPtyProcess\<close> can go once node-pty is loaded.\<close>

lemma spawnPtyProcess_cases:
  assumes "ptyLoaded e"
  obtains
    (sticky) "globalFlags s (needsNodeFallbackKey e)"
      "spawnPtyProcess e command args cwd envmap s
       = (spawnOutcome e (fallbackResult e command args cwd envmap),
          add_trace (sleepActions e s @ fallbackActions e command args cwd envmap) s)"
  | (direct_ok) h where "\<not> globalFlags s (needsNodeFallbackKey e)"
      "ptySpawn e command args cwd envmap = Inr h"
      "spawnPtyProcess e command args cwd envmap s
       = (Inr h, add_trace (sleepActions e s @ [PtySpawn command args cwd envmap]) s)"
  | (direct_other) msg where "\<not> globalFlags s (needsNodeFallbackKey e)"
      "ptySpawn e command args cwd envmap = Inl msg" "\<not> isShebangError msg"
      "spawnPtyProcess e command args cwd envmap s
       = (Inl (spawnErrorMessage e msg),
          add_trace (sleepActions e s @ [PtySpawn command args cwd envmap]) s)"
  | (shebang) msg where "\<not> globalFlags s (needsNodeFallbackKey e)"
      "ptySpawn e command args cwd envmap = Inl msg" "isShebangError msg"
      "spawnPtyProcess e command args cwd envmap s
       = (spawnOutcome e (fallbackResult e command args cwd envmap),
          (add_trace (sleepActions e s @ [PtySpawn command args cwd envmap]
                      @ sleepActions e s @ fallbackActions e command args cwd envmap) s)
          \<lparr>globalFlags := (globalFlags s)(needsNodeFallbackKey e := True)\<rparr>)"
proof (cases "globalFlags s (needsNodeFallbackKey e)")
  case True
  then show ?thesis
    using sticky spawnLoop_sticky [of s e command args cwd envmap] assms
    by (simp add: spawnPtyProcess_loaded)
next
  case False
  show ?thesis
  proof (cases "ptySpawn e command args cwd envmap")
    case (Inr h)
    then show ?thesis
      using direct_ok False spawnLoop_direct_ok [of s e command args cwd envmap h] assms
      by (simp add: spawnPtyProcess_loaded)
  next
    case (Inl msg)
    show ?thesis
    proof (cases "isShebangError msg")
      case True
      then show ?thesis
        using shebang False Inl spawnLoop_direct_shebang [of s e command args cwd envmap msg] assms
        by (simp add: spawnPtyProcess_loaded)
    next
      case other: False
      then show ?thesis
        using direct_other False Inl spawnLoop_direct_other [of s e command args cwd envmap msg]
          assms
        by (simp add: spawnPtyProcess_loaded)
    qed
  qed
qed

lemma filter_isPtySpawn_sleep [simp]: "filter isPtySpawn (sleepActions e s) = []"
  by (simp add: sleepActions_def)

lemma length_filter_fallback: "length (filter isPtySpawn (fallbackActions e command args cwd envmap)) \<le> 1"
  by (simp add: fallbackActions_def split: sum.splits)

lemma nodeArgsFor_neq: "nodeArgsFor e command args \<noteq> args"
proof -
  have "length (nodeArgsFor e command args) > length args"
    by (simp add: nodeArgsFor_def Let_def)
  then show ?thesis by auto
qed

lemma direct_not_in_fallback:
  "PtySpawn command args cwd envmap
     \<notin> set (sleepActions e s @ fallbackActions e command args cwd envmap)"
  using nodeArgsFor_neq [of e command args]
  by (auto simp: sleepActions_def fallbackActions_def split: sum.splits)

lemma spawnPtyProcess_attempts:
  "\<exists>d. trace (snd (spawnPtyProcess e command args cwd envmap s)) = trace s @ d \<and>
       length (filter isPtySpawn d) \<le> 2"
proof (cases "ptyLoaded e")
  case False
  then have "trace (snd (spawnPtyProcess e command args cwd envmap s)) = trace s @ []"
    by (simp add: spawnPtyProcess_not_loaded)
  then show ?thesis by fastforce
next
  case True
  note n = length_filter_fallback [of e command args cwd envmap]
  from True show ?thesis
  proof (cases rule: spawnPtyProcess_cases [of e s command args cwd envmap])
    case sticky
    have "length (filter isPtySpawn
            (sleepActions e s @ fallbackActions e command args cwd envmap)) \<le> 2"
      using n by simp
    then show ?thesis using sticky(2) by (metis add_trace_simps(4) snd_conv)
  next
    case (direct_ok h)
    have "length (filter isPtySpawn (sleepActions e s @ [PtySpawn command args cwd envmap])) \<le> 2"
      by simp
    then show ?thesis using direct_ok(3) by (metis add_trace_simps(4) snd_conv)
  next
    case (direct_other msg)
    have "length (filter isPtySpawn (sleepActions e s @ [PtySpawn command args cwd envmap])) \<le> 2"
      by simp
    then show ?thesis using direct_other(4) by (metis add_trace_simps(4) snd_conv)
  next
    case (shebang msg)
    let ?d = "sleepActions e s @ [PtySpawn command args cwd envmap]
                @ sleepActions e s @ fallbackActions e command args cwd envmap"
    have "length (filter isPtySpawn ?d) \<le> 2"
      using n by simp
    moreover have "trace (snd (spawnPtyProcess e command args cwd envmap s)) = trace s @ ?d"
      by (simp add: shebang(4))
    ultimately show ?thesis by blast
  qed
qed

lemma spawnPtyProcess_flags:
  assumes "globalFlags s k"
  shows "globalFlags (snd (spawnPtyProcess e command args cwd envmap s)) k"
proof (cases "ptyLoaded e")
  case False
  then show ?thesis using assms by (simp add: spawnPtyProcess_not_loaded)
next
  case True
  then show ?thesis
    by (cases rule: spawnPtyProcess_cases [of e s command args cwd envmap])
       (simp_all add: assms)
qed

lemma spawnPtyProcess_processes:
  "processes (snd (spawnPtyProcess e command args cwd envmap s)) = processes s"
proof (cases "ptyLoaded e")
  case False
  then show ?thesis by (simp add: spawnPtyProcess_not_loaded)
next
  case True
  then show ?thesis
    by (cases rule: spawnPtyProcess_cases [of e s command args cwd envmap]) simp_all
qed

section \<open>The registry invariant and the operations that keep it\<close>

lemma keepsI: "(\<And>s. keysMatch s \<Longrightarrow> keysMatch (snd (m s))) \<Longrightarrow> keeps m"
  by (simp add: keeps_def)

lemma keepsD: "keeps m \<Longrightarrow> keysMatch s \<Longrightarrow> keysMatch (snd (m s))"
  by (simp add: keeps_def)

lemma keysMatch_processes: "processes s' = processes s \<Longrightarrow> keysMatch s' = keysMatch s"
  by (simp add: keysMatch_def)

lemma keeps_processes: "(\<And>s. processes (snd (m s)) = processes s) \<Longrightarrow> keeps m"
  by (rule keepsI) (simp add: keysMatch_def)

lemma keeps_runs: "runs Q m \<Longrightarrow> keeps m"
proof (rule keeps_processes)
  fix s
  assume "runs Q m"
  from runsD [OF this, of s] show "processes (snd (m s)) = processes s" by auto
qed

lemma keeps_ret: "keeps (ret v)"
  by (rule keeps_processes) (simp add: ret_apply)

lemma keeps_throw: "keeps (throw msg)"
  by (rule keeps_processes) (simp add: throw_apply)

lemma keeps_await: "keeps (await r)"
  by (rule keeps_processes) (simp add: await_apply)

lemma keeps_effect: "keeps (effect a)"
  by (rule keeps_processes) (simp add: effect_apply)

lemma keeps_emit: "keeps (emit ev)"
  by (rule keeps_processes) (simp add: emit_apply)

lemma keeps_attempt: "keeps (attempt a r)"
  by (rule keeps_processes) (simp add: attempt_apply)

lemma keeps_bind:
  assumes "keeps m" and "\<And>v. keeps (f v)"
  shows "keeps (bind m f)"
proof (rule keepsI)
  fix s
  assume "keysMatch s"
  then have 1: "keysMatch (snd (m s))" using assms(1) by (rule keepsD [rotated])
  show "keysMatch (snd (bind m f s))"
  proof (cases "m s")
    case (Pair r s')
    with 1 have s': "keysMatch s'" by simp
    show ?thesis
    proof (cases r)
      case (Inl err)
      then show ?thesis using Pair s' by (simp add: bind_apply)
    next
      case (Inr v)
      then show ?thesis using Pair keepsD [OF assms(2) s', of v] by (simp add: bind_apply)
    qed
  qed
qed

lemma keeps_seq: "keeps m \<Longrightarrow> keeps n \<Longrightarrow> keeps (seq m n)"
  unfolding seq_def by (rule keeps_bind)

lemma keeps_try_catch:
  assumes "keeps m" and "\<And>err. keeps (h err)"
  shows "keeps (try_catch m h)"
proof (rule keepsI)
  fix s
  assume "keysMatch s"
  then have 1: "keysMatch (snd (m s))" using assms(1) by (rule keepsD [rotated])
  show "keysMatch (snd (try_catch m h s))"
  proof (cases "m s")
    case (Pair r s')
    with 1 have s': "keysMatch s'" by simp
    show ?thesis
    proof (cases r)
      case (Inl err)
      then show ?thesis using Pair keepsD [OF assms(2) s', of err] by (simp add: try_catch_apply)
    next
      case (Inr v)
      then show ?thesis using Pair s' by (simp add: try_catch_apply)
    qed
  qed
qed

lemma keeps_for_each:
  assumes "\<And>x. keeps (f x)"
  shows "keeps (for_each xs f)"
  by (induction xs) (simp_all add: keeps_ret keeps_seq assms)

lemma list_all_update:
  "P (k, v) \<Longrightarrow> list_all P xs \<Longrightarrow> list_all P (AList.update k v xs)"
  by (induction xs) auto

lemma list_all_delete: "list_all P xs \<Longrightarrow> list_all P (AList.delete k xs)"
  by (simp add: AList.delete_eq list_all_iff)

lemma keeps_processes_set: "panelId cp = k \<Longrightarrow> keeps (processes_set k cp)"
  by (rule keepsI) (simp add: processes_set_def keysMatch_def list_all_update)

lemma keeps_processes_delete: "keeps (processes_delete k)"
  by (rule keepsI) (simp add: processes_delete_def keysMatch_def list_all_delete)

lemma keeps_getCachedAvailability: "keeps (getCachedAvailability e)"
  by (rule keeps_processes) (rule getCachedAvailability_processes)

lemma keeps_spawnPtyProcess: "keeps (spawnPtyProcess e command args cwd envmap)"
  by (rule keeps_processes) (rule spawnPtyProcess_processes)

lemma keeps_handleCliNotAvailable: "keeps (handleCliNotAvailable e a p sid)"
  by (rule keeps_processes) (simp add: handleCliNotAvailable_apply)

lemma keeps_getSystemEnvironment: "keeps (getSystemEnvironment e)"
  unfolding getSystemEnvironment_def Let_def
  by (intro keeps_bind keeps_await keeps_ret)

lemma keeps_spawnCliProcess: "keeps (spawnCliProcess e options)"
  unfolding spawnCliProcess_def spawnCliProcessBody_def
  by (auto intro!: keeps_try_catch keeps_bind keeps_seq keeps_getCachedAvailability
      keeps_handleCliNotAvailable keeps_throw keeps_attempt keeps_getSystemEnvironment
      keeps_await keeps_spawnPtyProcess keeps_processes_set keeps_emit)

lemma keeps_sendInput: "keeps (sendInput e p input)"
  by (rule keeps_processes)
     (simp add: sendInput_def throw_apply effect_apply split: option.splits)

lemma keeps_killProcess: "keeps (killProcess e p)"
proof (rule keepsI)
  fix s
  assume s: "keysMatch s"
  show "keysMatch (snd (killProcess e p s))"
  proof (cases "map_of (processes s) p")
    case None
    then show ?thesis using s by (simp add: killProcess_def ret_apply)
  next
    case (Some cp)
    let ?m = "seq (effect (CleanupCliResources (sessionId cp)))
                 (seq (if pty_pid (process cp) \<noteq> 0 then
                         bind (killProcessTree e (pty_pid (process cp)) p (sessionId cp))
                           (\<lambda>success.
                              if length (if length (if pty_pid (process cp) \<noteq> 0
                                    then getAllDescendantPids e 0 (pty_pid (process cp)) else []) > 0
                                  then getProcessInfo e (if pty_pid (process cp) \<noteq> 0
                                    then getAllDescendantPids e 0 (pty_pid (process cp)) else [])
                                  else []) > 0
                              then emit (Output (killedReport e p (sessionId cp)
                                     (if length (if pty_pid (process cp) \<noteq> 0
                                    then getAllDescendantPids e 0 (pty_pid (process cp)) else []) > 0
                                  then getProcessInfo e (if pty_pid (process cp) \<noteq> 0
                                    then getAllDescendantPids e 0 (pty_pid (process cp)) else [])
                                  else [])))
                              else ret ())
                       else attempt (PtyKill (process cp)) (ptyKill e (process cp)))
                      (processes_delete p))"
    have "keeps ?m"
      by (auto intro!: keeps_seq keeps_effect keeps_bind keeps_runs [OF runs_killProcessTree]
          keeps_emit keeps_ret keeps_attempt keeps_processes_delete)
    moreover have "killProcess e p s = ?m s"
      using Some by (simp add: killProcess_def Let_def)
    ultimately show ?thesis using s by (simp add: keepsD)
  qed
qed

lemma keeps_killAllProcesses: "keeps (killAllProcesses e)"
proof (rule keepsI)
  fix s
  assume "keysMatch s"
  then show "keysMatch (snd (killAllProcesses e s))"
    unfolding killAllProcesses_def
    by (rule keepsD [OF keeps_for_each [of "killProcess e"], OF keeps_killProcess])
qed

lemma keeps_clearAvailabilityCache: "keeps clearAvailabilityCache"
  by (rule keeps_processes) (simp add: clearAvailabilityCache_def)

lemma keeps_onData: "keeps (onData e p sid dat h)"
  by (rule keeps_processes) (simp add: onData_apply)

lemma keeps_onExit: "keeps (onExit e ptyProcess p sid h exitCode sig)"
proof (rule keepsI)
  fix s
  assume "keysMatch s"
  then show "keysMatch (snd (onExit e ptyProcess p sid h exitCode sig s))"
    using onExit_apply [of e ptyProcess p sid h exitCode sig s]
    by (auto simp: keysMatch_def list_all_delete)
qed

lemma reachable_keysMatch: "reachable s \<Longrightarrow> keysMatch s"
proof (induction rule: reachable.induct)
  case (reach_new s)
  then show ?case by (simp add: keysMatch_def)
qed (simp_all add: keepsD keeps_spawnCliProcess keeps_sendInput keeps_killProcess
      keeps_killAllProcesses keeps_clearAvailabilityCache keeps_onData keeps_onExit)

lemma keysMatch_lookup:
  assumes "keysMatch s" and "map_of (processes s) k = Some cp"
  shows "panelId cp = k"
proof -
  from assms(2) have "(k, cp) \<in> set (processes s)" by (rule map_of_SomeD)
  with assms(1) show ?thesis by (auto simp: keysMatch_def list_all_iff)
qed

section \<open>C1: the exit event and the registry\<close>

text \<open>
  C1, as the specification states it, fails: the handler emits the exit event first and
  deletes the registry entry after it. When process 4242 of the registered panel \<open>p1\<close>
  exits with code 0, the listeners of the exit event run while \<^verbatim>\<open>getAllProcesses()\<close> still
  lists \<open>p1\<close>, so \<^verbatim>\<open>isPanelRunning('p1')\<close> is true for them.
\<close>

theorem exit_event_sees_running_panel_counterexample:
  "isPanelRunning running_manager ''p1'' \<and>
   trace (snd (onExit quiet_env (IPty 4242) ''p1'' ''s1'' initial_handler_state 0 None
                 running_manager))
     = [CleanupCliResources ''s1'', Emitted (Exit ''p1'' ''s1'' (Some 0) None) [''p1'']]"
proof -
  have "getAllDescendantPids quiet_env 0 (pty_pid (IPty 4242)) = []"
    by (simp add: quiet_env_def)
  then show ?thesis
    by (simp add: onExit_no_orphans flushActions_def failureActions_def initial_handler_state_def
        js_trim_def running_manager_def new_manager_def getAllProcesses_def isPanelRunning_def)
qed

text \<open>
  C1, amended. On natural process exit the handler does not throw; the cleanup of the
  tool's resources runs immediately before the exit event, which is the last action, and
  neither happens earlier in the handler. The exit event is emitted while the registry is
  still as it was when the handler started (a listener sees the panel as running exactly
  when it was registered then); the entry of the panel is deleted after the event, so
  that once the handler has returned \<^verbatim>\<open>isPanelRunning\<close> is false for the panel.
\<close>

theorem exit_event_then_removal:
  "\<exists>pre.
     fst (onExit e ptyProcess p sid h exitCode sig s) = Inr () \<and>
     trace (snd (onExit e ptyProcess p sid h exitCode sig s))
       = trace s @ pre @ [CleanupCliResources sid,
                          Emitted (Exit p sid (Some exitCode) sig) (getAllProcesses s)] \<and>
     list_all (\<lambda>a. \<not> isExitOrCleanup a) pre \<and>
     (p \<in> set (getAllProcesses s)) = isPanelRunning s p \<and>
     processes (snd (onExit e ptyProcess p sid h exitCode sig s)) = AList.delete p (processes s) \<and>
     \<not> isPanelRunning (snd (onExit e ptyProcess p sid h exitCode sig s)) p"
proof -
  let ?ids = "getAllProcesses s"
  from onExit_apply [of e ptyProcess p sid h exitCode sig s] obtain d where
    d: "list_all killAction d" and
    1: "onExit e ptyProcess p sid h exitCode sig s
       = (Inr (),
          (add_trace (d @ flushActions e h p sid ?ids @ failureActions e h p sid exitCode sig ?ids
                        @ [CleanupCliResources sid, Emitted (Exit p sid (Some exitCode) sig) ?ids]) s)
          \<lparr>processes := AList.delete p (processes s)\<rparr>)"
    by blast
  let ?pre = "d @ flushActions e h p sid ?ids @ failureActions e h p sid exitCode sig ?ids"
  have "list_all (\<lambda>a. \<not> isExitOrCleanup a) d"
    using d killAction_not_exit by (rule list_all_mono)
  then have pre: "list_all (\<lambda>a. \<not> isExitOrCleanup a) ?pre"
    by (simp add: not_exit_flushActions not_exit_failureActions)
  have tr: "trace (snd (onExit e ptyProcess p sid h exitCode sig s))
       = trace s @ ?pre @ [CleanupCliResources sid, Emitted (Exit p sid (Some exitCode) sig) ?ids]"
    by (simp add: 1)
  have gone: "\<not> isPanelRunning (snd (onExit e ptyProcess p sid h exitCode sig s)) p"
    by (simp add: 1 isPanelRunning_def delete_conv)
  have "fst (onExit e ptyProcess p sid h exitCode sig s) = Inr ()"
    by (simp add: 1)
  moreover have "processes (snd (onExit e ptyProcess p sid h exitCode sig s))
       = AList.delete p (processes s)"
    by (simp add: 1)
  ultimately show ?thesis
    using tr pre gone isPanelRunning_iff [of s p] by blast
qed

text \<open>
  Example: process 10 of the registered panel \<open>p1\<close> exits with code 1 after output, with
  two children still alive. The exit event comes last, right after the cleanup, with
  \<open>p1\<close> still in the registry; afterwards the registry is empty.
\<close>

theorem exit_event_then_removal_witness:
  "\<exists>pre.
     trace (snd (onExit demo_env (IPty 10) ''p1'' ''s1''
                   \<lparr>hasReceivedOutput = True, lastOutput = ''abc'', buffer = ''abc''\<rparr> 1 None
                   running_manager))
       = pre @ [CleanupCliResources ''s1'', Emitted (Exit ''p1'' ''s1'' (Some 1) None) [''p1'']] \<and>
     list_all (\<lambda>a. \<not> isExitOrCleanup a) pre \<and>
     isPanelRunning running_manager ''p1'' \<and>
     processes (snd (onExit demo_env (IPty 10) ''p1'' ''s1''
                   \<lparr>hasReceivedOutput = True, lastOutput = ''abc'', buffer = ''abc''\<rparr> 1 None
                   running_manager)) = []"
proof -
  have 1: "getAllProcesses running_manager = [''p1'']" "trace running_manager = []"
    "AList.delete ''p1'' (processes running_manager) = []"
    "isPanelRunning running_manager ''p1''"
    by (simp_all add: running_manager_def new_manager_def getAllProcesses_def isPanelRunning_def
        AList.delete_eq)
  show ?thesis
    using exit_event_then_removal [of demo_env "IPty 10" "''p1''" "''s1''"
        "\<lparr>hasReceivedOutput = True, lastOutput = ''abc'', buffer = ''abc''\<rparr>" 1 None
        running_manager]
    unfolding 1 by auto
qed

section \<open>C2: the fallback through Node and its sticky flag\<close>

text \<open>
  C2. With node-pty loaded: if the fallback flag of the tool is not set and the direct
  spawn fails with a message that contains \<open>No such file or directory\<close>, \<open>env: node:\<close>,
  \<open>is not recognized\<close> or \<open>ENOENT\<close> (the test \<open>isShebangError\<close>), then the flag of the
  tool is set, and, the Node interpreter being located, exactly one more spawn is made, of
  the interpreter with the script in front of the arguments; its outcome is the outcome of
  the call. If the flag is set when the call starts, the call makes no direct attempt: all
  it does is the (only) attempt through Node, and the flag stays set. No call ever resets
  a flag.
\<close>

theorem spawn_fallback_sticky:
  assumes "ptyLoaded e"
  shows
   "(\<not> globalFlags s (needsNodeFallbackKey e) \<and>
     ptySpawn e command args cwd envmap = Inl msg \<and>
     (str_includes msg ''No such file or directory'' \<or> str_includes msg ''env: node:'' \<or>
      str_includes msg ''is not recognized'' \<or> str_includes msg ''ENOENT'') \<and>
     findNodeExecutable e = Inr nodePath \<longrightarrow>
       globalFlags (snd (spawnPtyProcess e command args cwd envmap s)) (needsNodeFallbackKey e) \<and>
       trace (snd (spawnPtyProcess e command args cwd envmap s))
         = trace s @ sleepActions e s @ [PtySpawn command args cwd envmap]
           @ sleepActions e s @ [PtySpawn nodePath (nodeArgsFor e command args) cwd envmap] \<and>
       fst (spawnPtyProcess e command args cwd envmap s)
         = spawnOutcome e (ptySpawn e nodePath (nodeArgsFor e command args) cwd envmap)) \<and>
    (globalFlags s (needsNodeFallbackKey e) \<longrightarrow>
       snd (spawnPtyProcess e command args cwd envmap s)
         = add_trace (sleepActions e s @ fallbackActions e command args cwd envmap) s \<and>
       PtySpawn command args cwd envmap
         \<notin> set (sleepActions e s @ fallbackActions e command args cwd envmap) \<and>
       length (filter isPtySpawn (sleepActions e s @ fallbackActions e command args cwd envmap)) \<le> 1 \<and>
       fst (spawnPtyProcess e command args cwd envmap s)
         = spawnOutcome e (fallbackResult e command args cwd envmap)) \<and>
    (\<not> globalFlags s (needsNodeFallbackKey e) \<and>
     ptySpawn e command args cwd envmap = Inl msg \<and> isShebangError msg \<longrightarrow>
       globalFlags (snd (spawnPtyProcess e command args cwd envmap s)) (needsNodeFallbackKey e)) \<and>
    (globalFlags s k \<longrightarrow> globalFlags (snd (spawnPtyProcess e command args cwd envmap s)) k)"
proof (intro conjI impI)
  assume a: "\<not> globalFlags s (needsNodeFallbackKey e) \<and>
     ptySpawn e command args cwd envmap = Inl msg \<and>
     (str_includes msg ''No such file or directory'' \<or> str_includes msg ''env: node:'' \<or>
      str_includes msg ''is not recognized'' \<or> str_includes msg ''ENOENT'') \<and>
     findNodeExecutable e = Inr nodePath"
  then have sh: "isShebangError msg" by (simp add: isShebangError_def)
  have r: "spawnPtyProcess e command args cwd envmap s
       = (spawnOutcome e (fallbackResult e command args cwd envmap),
          (add_trace (sleepActions e s @ [PtySpawn command args cwd envmap]
                      @ sleepActions e s @ fallbackActions e command args cwd envmap) s)
          \<lparr>globalFlags := (globalFlags s)(needsNodeFallbackKey e := True)\<rparr>)"
    using a sh spawnLoop_direct_shebang [of s e command args cwd envmap msg] assms
    by (simp add: spawnPtyProcess_loaded)
  show "globalFlags (snd (spawnPtyProcess e command args cwd envmap s)) (needsNodeFallbackKey e)"
    by (simp add: r)
  show "trace (snd (spawnPtyProcess e command args cwd envmap s))
         = trace s @ sleepActions e s @ [PtySpawn command args cwd envmap]
           @ sleepActions e s @ [PtySpawn nodePath (nodeArgsFor e command args) cwd envmap]"
    using a by (simp add: r fallbackActions_def)
  show "fst (spawnPtyProcess e command args cwd envmap s)
         = spawnOutcome e (ptySpawn e nodePath (nodeArgsFor e command args) cwd envmap)"
    using a by (simp add: r fallbackResult_def)
next
  assume f: "globalFlags s (needsNodeFallbackKey e)"
  have r: "spawnPtyProcess e command args cwd envmap s
       = (spawnOutcome e (fallbackResult e command args cwd envmap),
          add_trace (sleepActions e s @ fallbackActions e command args cwd envmap) s)"
    using f spawnLoop_sticky [of s e command args cwd envmap] assms
    by (simp add: spawnPtyProcess_loaded)
  show "snd (spawnPtyProcess e command args cwd envmap s)
         = add_trace (sleepActions e s @ fallbackActions e command args cwd envmap) s"
    by (simp add: r)
  show "PtySpawn command args cwd envmap
         \<notin> set (sleepActions e s @ fallbackActions e command args cwd envmap)"
    by (rule direct_not_in_fallback)
  show "length (filter isPtySpawn (sleepActions e s @ fallbackActions e command args cwd envmap)) \<le> 1"
    using length_filter_fallback [of e command args cwd envmap] by simp
  show "fst (spawnPtyProcess e command args cwd envmap s)
         = spawnOutcome e (fallbackResult e command args cwd envmap)"
    by (simp add: r)
next
  assume "\<not> globalFlags s (needsNodeFallbackKey e) \<and>
     ptySpawn e command args cwd envmap = Inl msg \<and> isShebangError msg"
  then show "globalFlags (snd (spawnPtyProcess e command args cwd envmap s)) (needsNodeFallbackKey e)"
    using spawnLoop_direct_shebang [of s e command args cwd envmap msg] assms
    by (simp add: spawnPtyProcess_loaded)
next
  assume "globalFlags s k"
  then show "globalFlags (snd (spawnPtyProcess e command args cwd envmap s)) k"
    by (rule spawnPtyProcess_flags)
qed

text \<open>
  Example, the scenario of the specification: the direct spawn of \<open>claude\<close> fails with
  \<open>spawn ENOENT\<close> and the spawn through Node succeeds. The first call makes both attempts
  and returns the handle; a second call for the same tool makes only the attempt through
  Node.
\<close>

theorem spawn_fallback_sticky_witness:
  "ptyLoaded demo_env \<and>
   \<not> globalFlags new_manager (needsNodeFallbackKey demo_env) \<and>
   ptySpawn demo_env ''claude'' [''-p''] ''/tmp'' [] = Inl ''spawn ENOENT'' \<and>
   str_includes ''spawn ENOENT'' ''ENOENT'' \<and>
   fst (spawnPtyProcess demo_env ''claude'' [''-p''] ''/tmp'' [] new_manager) = Inr (IPty 4242) \<and>
   trace (snd (spawnPtyProcess demo_env ''claude'' [''-p''] ''/tmp'' [] new_manager))
     = [PtySpawn ''claude'' [''-p''] ''/tmp'' [],
        PtySpawn ''/usr/bin/node'' [''claude'', ''-p''] ''/tmp'' []] \<and>
   globalFlags (snd (spawnPtyProcess demo_env ''claude'' [''-p''] ''/tmp'' [] new_manager))
     (needsNodeFallbackKey demo_env) \<and>
   fst (spawnPtyProcess demo_env ''claude'' [''-p''] ''/tmp'' []
          (snd (spawnPtyProcess demo_env ''claude'' [''-p''] ''/tmp'' [] new_manager)))
     = Inr (IPty 4242) \<and>
   trace (snd (spawnPtyProcess demo_env ''claude'' [''-p''] ''/tmp'' []
                 (snd (spawnPtyProcess demo_env ''claude'' [''-p''] ''/tmp'' [] new_manager))))
     = [PtySpawn ''claude'' [''-p''] ''/tmp'' [],
        PtySpawn ''/usr/bin/node'' [''claude'', ''-p''] ''/tmp'' [],
        PtySpawn ''/usr/bin/node'' [''claude'', ''-p''] ''/tmp'' []]"
proof -
  let ?s1 = "snd (spawnPtyProcess demo_env ''claude'' [''-p''] ''/tmp'' [] new_manager)"
  have loaded: "ptyLoaded demo_env"
    by (simp add: demo_env_def)
  have flag: "\<not> globalFlags new_manager (needsNodeFallbackKey demo_env)"
    by (simp add: new_manager_def)
  have direct: "ptySpawn demo_env ''claude'' [''-p''] ''/tmp'' [] = Inl ''spawn ENOENT''"
    by (simp add: demo_env_def)
  have enoent: "str_includes ''spawn ENOENT'' ''ENOENT''"
    by simp
  have node: "findNodeExecutable demo_env = Inr ''/usr/bin/node''"
    by (simp add: demo_env_def)
  have nodeArgs: "nodeArgsFor demo_env ''claude'' [''-p''] = [''claude'', ''-p'']"
    by (simp add: nodeArgsFor_def demo_env_def)
  have viaNode: "ptySpawn demo_env ''/usr/bin/node'' [''claude'', ''-p''] ''/tmp'' [] = Inr (IPty 4242)"
    by (simp add: demo_env_def)
  have quiet: "sleepActions demo_env new_manager = []" "trace new_manager = []"
    by (simp_all add: sleepActions_def new_manager_def)
  note first = spawn_fallback_sticky [OF loaded, of new_manager "''claude''" "[''-p'']" "''/tmp''" "[]"
      "''spawn ENOENT''" "''/usr/bin/node''", THEN conjunct1]
  have 1: "globalFlags ?s1 (needsNodeFallbackKey demo_env)"
    "trace ?s1 = [PtySpawn ''claude'' [''-p''] ''/tmp'' [],
        PtySpawn ''/usr/bin/node'' [''claude'', ''-p''] ''/tmp'' []]"
    "fst (spawnPtyProcess demo_env ''claude'' [''-p''] ''/tmp'' [] new_manager) = Inr (IPty 4242)"
    using first flag direct enoent node
    by (simp_all add: nodeArgs viaNode quiet spawnOutcome_def)
  have procs: "processes ?s1 = []"
    unfolding spawnPtyProcess_processes by (simp add: new_manager_def)
  have quiet1: "sleepActions demo_env ?s1 = []"
    by (simp add: sleepActions_def procs)
  have fb: "fallbackActions demo_env ''claude'' [''-p''] ''/tmp'' []
              = [PtySpawn ''/usr/bin/node'' [''claude'', ''-p''] ''/tmp'' []]"
    "fallbackResult demo_env ''claude'' [''-p''] ''/tmp'' [] = Inr (IPty 4242)"
    by (simp_all add: fallbackActions_def fallbackResult_def node nodeArgs viaNode)
  note second = spawn_fallback_sticky [OF loaded, of ?s1 "''claude''" "[''-p'']" "''/tmp''" "[]",
      THEN conjunct2, THEN conjunct1]
  have 2: "fst (spawnPtyProcess demo_env ''claude'' [''-p''] ''/tmp'' [] ?s1) = Inr (IPty 4242)"
    "trace (snd (spawnPtyProcess demo_env ''claude'' [''-p''] ''/tmp'' [] ?s1))
     = [PtySpawn ''claude'' [''-p''] ''/tmp'' [],
        PtySpawn ''/usr/bin/node'' [''claude'', ''-p''] ''/tmp'' [],
        PtySpawn ''/usr/bin/node'' [''claude'', ''-p''] ''/tmp'' []]"
    using second 1(1)
    by (simp_all add: quiet1 fb 1(2) spawnOutcome_def)
  from loaded flag direct enoent 1 2 show ?thesis by blast
qed

section \<open>C3: at most two attempts, and the error of the last one\<close>

text \<open>
  C3. A call of \<^verbatim>\<open>spawnPtyProcess\<close> makes at most two calls of \<^verbatim>\<open>pty.spawn\<close>. A first
  attempt that fails with a message that is not shebang-shaped is not retried: the call
  fails after that one attempt, be it the direct one or, with the fallback flag set, the
  one through Node (which is not retried whatever its message). When the direct attempt
  fails with a shebang-shaped message and the attempt through Node fails too, the call
  fails with the message of the second failure. In every case (node-pty being loaded) a
  failed call throws \<open>Failed to spawn tool: m\<close>, where \<open>m\<close> is the message of the
  failure of the last attempt made; without node-pty the call fails before any attempt.
\<close>

theorem spawn_attempts_and_error:
  "(\<exists>d. trace (snd (spawnPtyProcess e command args cwd envmap s)) = trace s @ d \<and>
        length (filter isPtySpawn d) \<le> 2) \<and>
   (ptyLoaded e \<and> \<not> globalFlags s (needsNodeFallbackKey e) \<and>
    ptySpawn e command args cwd envmap = Inl msg \<and> \<not> isShebangError msg \<longrightarrow>
      spawnPtyProcess e command args cwd envmap s
        = (Inl (''Failed to spawn '' @ getCliToolName e @ '': '' @ msg),
           add_trace (sleepActions e s @ [PtySpawn command args cwd envmap]) s)) \<and>
   (ptyLoaded e \<and> globalFlags s (needsNodeFallbackKey e) \<and>
    fst (nodeFallbackSpawn e command args cwd envmap s) = Inl msg \<longrightarrow>
      spawnPtyProcess e command args cwd envmap s
        = (Inl (''Failed to spawn '' @ getCliToolName e @ '': '' @ msg),
           add_trace (sleepActions e s @ fallbackActions e command args cwd envmap) s) \<and>
      length (filter isPtySpawn (sleepActions e s @ fallbackActions e command args cwd envmap)) \<le> 1) \<and>
   (ptyLoaded e \<and> \<not> globalFlags s (needsNodeFallbackKey e) \<and>
    ptySpawn e command args cwd envmap = Inl msg \<and> isShebangError msg \<and>
    fst (nodeFallbackSpawn e command args cwd envmap s) = Inl msg2 \<longrightarrow>
      fst (spawnPtyProcess e command args cwd envmap s)
        = Inl (''Failed to spawn '' @ getCliToolName e @ '': '' @ msg2)) \<and>
   (ptyLoaded e \<and> fst (spawnPtyProcess e command args cwd envmap s) = Inl failure \<longrightarrow>
      (\<exists>m. failure = ''Failed to spawn '' @ getCliToolName e @ '': '' @ m \<and>
           (ptySpawn e command args cwd envmap = Inl m \<or>
            fst (nodeFallbackSpawn e command args cwd envmap s) = Inl m))) \<and>
   (\<not> ptyLoaded e \<longrightarrow>
      spawnPtyProcess e command args cwd envmap s = (Inl ''node-pty not available'', s))"
proof (intro conjI impI)
  show "\<exists>d. trace (snd (spawnPtyProcess e command args cwd envmap s)) = trace s @ d \<and>
        length (filter isPtySpawn d) \<le> 2"
    by (rule spawnPtyProcess_attempts)
next
  assume "ptyLoaded e \<and> \<not> globalFlags s (needsNodeFallbackKey e) \<and>
    ptySpawn e command args cwd envmap = Inl msg \<and> \<not> isShebangError msg"
  then show "spawnPtyProcess e command args cwd envmap s
        = (Inl (''Failed to spawn '' @ getCliToolName e @ '': '' @ msg),
           add_trace (sleepActions e s @ [PtySpawn command args cwd envmap]) s)"
    using spawnLoop_direct_other [of s e command args cwd envmap msg]
    by (simp add: spawnPtyProcess_loaded spawnErrorMessage_def)
next
  assume a: "ptyLoaded e \<and> globalFlags s (needsNodeFallbackKey e) \<and>
    fst (nodeFallbackSpawn e command args cwd envmap s) = Inl msg"
  then show "spawnPtyProcess e command args cwd envmap s
        = (Inl (''Failed to spawn '' @ getCliToolName e @ '': '' @ msg),
           add_trace (sleepActions e s @ fallbackActions e command args cwd envmap) s)"
    using spawnLoop_sticky [of s e command args cwd envmap]
    by (simp add: spawnPtyProcess_loaded spawnErrorMessage_def spawnOutcome_def
        nodeFallbackSpawn_apply)
  show "length (filter isPtySpawn (sleepActions e s @ fallbackActions e command args cwd envmap)) \<le> 1"
    using length_filter_fallback [of e command args cwd envmap] by simp
next
  assume "ptyLoaded e \<and> \<not> globalFlags s (needsNodeFallbackKey e) \<and>
    ptySpawn e command args cwd envmap = Inl msg \<and> isShebangError msg \<and>
    fst (nodeFallbackSpawn e command args cwd envmap s) = Inl msg2"
  then show "fst (spawnPtyProcess e command args cwd envmap s)
        = Inl (''Failed to spawn '' @ getCliToolName e @ '': '' @ msg2)"
    using spawnLoop_direct_shebang [of s e command args cwd envmap msg]
    by (simp add: spawnPtyProcess_loaded spawnErrorMessage_def spawnOutcome_def
        nodeFallbackSpawn_apply)
next
  assume a: "ptyLoaded e \<and> fst (spawnPtyProcess e command args cwd envmap s) = Inl failure"
  then have loaded: "ptyLoaded e" by simp
  have fb: "fst (nodeFallbackSpawn e command args cwd envmap s)
            = fallbackResult e command args cwd envmap"
    by (simp add: nodeFallbackSpawn_apply)
  from loaded show "\<exists>m. failure = ''Failed to spawn '' @ getCliToolName e @ '': '' @ m \<and>
           (ptySpawn e command args cwd envmap = Inl m \<or>
            fst (nodeFallbackSpawn e command args cwd envmap s) = Inl m)"
  proof (cases rule: spawnPtyProcess_cases [of e s command args cwd envmap])
    case sticky
    then show ?thesis using a fb
      by (cases "fallbackResult e command args cwd envmap")
         (auto simp: spawnOutcome_def spawnErrorMessage_def)
  next
    case (direct_ok h)
    then show ?thesis using a by simp
  next
    case (direct_other msg)
    then show ?thesis using a by (auto simp: spawnErrorMessage_def)
  next
    case (shebang msg)
    then show ?thesis using a fb
      by (cases "fallbackResult e command args cwd envmap")
         (auto simp: spawnOutcome_def spawnErrorMessage_def)
  qed
next
  assume "\<not> ptyLoaded e"
  then show "spawnPtyProcess e command args cwd envmap s = (Inl ''node-pty not available'', s)"
    by (rule spawnPtyProcess_not_loaded)
qed

text \<open>
  Examples. Where every spawn is refused with \<open>Permission denied\<close>, the call makes one
  attempt and fails with that message, with the flag unset (the direct attempt) and with
  the flag set (the attempt through Node). Where the direct spawn fails with \<open>spawn ENOENT\<close>
  and Node with \<open>node: bad option\<close>, the call fails with the second message. Without
  node-pty the call fails at once.
\<close>

theorem spawn_attempts_and_error_witness:
  "spawnPtyProcess denied_env ''claude'' [''-p''] ''/tmp'' [] new_manager
     = (Inl ''Failed to spawn Claude: Permission denied'',
        add_trace [PtySpawn ''claude'' [''-p''] ''/tmp'' []] new_manager) \<and>
   spawnPtyProcess denied_env ''claude'' [''-p''] ''/tmp'' [] sticky_manager
     = (Inl ''Failed to spawn Claude: Permission denied'',
        add_trace [PtySpawn ''/usr/bin/node'' [''claude'', ''-p''] ''/tmp'' []] sticky_manager) \<and>
   fst (spawnPtyProcess broken_node_env ''claude'' [''-p''] ''/tmp'' [] new_manager)
     = Inl ''Failed to spawn Claude: node: bad option'' \<and>
   spawnPtyProcess (demo_env\<lparr>ptyLoaded := False\<rparr>) ''claude'' [''-p''] ''/tmp'' [] new_manager
     = (Inl ''node-pty not available'', new_manager)"
proof -
  have lower: "toLowerCase ''Claude'' = ''claude''"
    by code_simp
  have key: "needsNodeFallbackKey denied_env = ''claudeNeedsNodeFallback''"
    "needsNodeFallbackKey broken_node_env = ''claudeNeedsNodeFallback''"
    by (simp_all add: needsNodeFallbackKey_def denied_env_def broken_node_env_def demo_env_def
        lower)
  have new: "\<not> globalFlags new_manager ''claudeNeedsNodeFallback''"
    "sleepActions denied_env new_manager = []"
    by (simp_all add: new_manager_def sleepActions_def)
  have sticky: "globalFlags sticky_manager ''claudeNeedsNodeFallback''"
    "sleepActions denied_env sticky_manager = []"
    by (simp_all add: sticky_manager_def new_manager_def sleepActions_def)
  have denied: "ptyLoaded denied_env" "getCliToolName denied_env = ''Claude''"
    "ptySpawn denied_env ''claude'' [''-p''] ''/tmp'' [] = Inl ''Permission denied''"
    "fallbackActions denied_env ''claude'' [''-p''] ''/tmp'' []
       = [PtySpawn ''/usr/bin/node'' [''claude'', ''-p''] ''/tmp'' []]"
    "fallbackResult denied_env ''claude'' [''-p''] ''/tmp'' [] = Inl ''Permission denied''"
    by (simp_all add: denied_env_def demo_env_def fallbackActions_def fallbackResult_def
        nodeArgsFor_def)
  have plain: "\<not> isShebangError ''Permission denied''"
    by code_simp
  have broken: "ptyLoaded broken_node_env" "getCliToolName broken_node_env = ''Claude''"
    "ptySpawn broken_node_env ''claude'' [''-p''] ''/tmp'' [] = Inl ''spawn ENOENT''"
    "fallbackResult broken_node_env ''claude'' [''-p''] ''/tmp'' [] = Inl ''node: bad option''"
    by (simp_all add: broken_node_env_def demo_env_def fallbackResult_def nodeArgsFor_def)
  have enoent: "isShebangError ''spawn ENOENT''"
    by code_simp
  have unloaded: "\<not> ptyLoaded (demo_env\<lparr>ptyLoaded := False\<rparr>)"
    by simp
  have 1: "spawnPtyProcess denied_env ''claude'' [''-p''] ''/tmp'' [] new_manager
     = (Inl ''Failed to spawn Claude: Permission denied'',
        add_trace [PtySpawn ''claude'' [''-p''] ''/tmp'' []] new_manager)"
    using spawn_attempts_and_error [of denied_env "''claude''" "[''-p'']" "''/tmp''" "[]"
        new_manager "''Permission denied''", THEN conjunct2, THEN conjunct1] denied plain new
    by (simp add: key)
  have 2: "spawnPtyProcess denied_env ''claude'' [''-p''] ''/tmp'' [] sticky_manager
     = (Inl ''Failed to spawn Claude: Permission denied'',
        add_trace [PtySpawn ''/usr/bin/node'' [''claude'', ''-p''] ''/tmp'' []] sticky_manager)"
    using spawn_attempts_and_error [of denied_env "''claude''" "[''-p'']" "''/tmp''" "[]"
        sticky_manager "''Permission denied''", THEN conjunct2, THEN conjunct2, THEN conjunct1]
      denied sticky
    by (simp add: key nodeFallbackSpawn_apply)
  have 3: "fst (spawnPtyProcess broken_node_env ''claude'' [''-p''] ''/tmp'' [] new_manager)
     = Inl ''Failed to spawn Claude: node: bad option''"
    using spawn_attempts_and_error [of broken_node_env "''claude''" "[''-p'']" "''/tmp''" "[]"
        new_manager "''spawn ENOENT''" "''node: bad option''",
        THEN conjunct2, THEN conjunct2, THEN conjunct2, THEN conjunct1] broken enoent new(1)
    by (simp add: key nodeFallbackSpawn_apply)
  have 4: "spawnPtyProcess (demo_env\<lparr>ptyLoaded := False\<rparr>) ''claude'' [''-p''] ''/tmp'' [] new_manager
     = (Inl ''node-pty not available'', new_manager)"
    using spawn_attempts_and_error [of "demo_env\<lparr>ptyLoaded := False\<rparr>" "''claude''" "[''-p'']"
        "''/tmp''" "[]" new_manager,
        THEN conjunct2, THEN conjunct2, THEN conjunct2, THEN conjunct2, THEN conjunct2] unloaded
    by simp
  from 1 2 3 4 show ?thesis by blast
qed

section \<open>C4: chunk-boundary independence of the output pipeline\<close>

text \<open>
  C4. Feeding the chunks of a text in order to the \<^verbatim>\<open>onData\<close> handler gives the same
  result as feeding the whole text as one chunk: the same calls of the parser and the same
  output events in the same order, and the same variables of the closure afterwards. This
  holds from any state of the closure for one chunk or more, and from the initial state
  also for no chunk at all (nothing is parsed either way). In particular the three chunks
  \<open>ab\<close>, \<open>c\<newline>de\<close>, \<open>f\<newline>\<close> give what the single chunk \<open>abc\<newline>def\<newline>\<close> gives.
\<close>

theorem chunk_boundary_independence:
  "feedChunks e p sid (c # cs) h s = onData e p sid (concat (c # cs)) h s \<and>
   snd (feedChunks e p sid chunks initial_handler_state s)
     = snd (onData e p sid (concat chunks) initial_handler_state s) \<and>
   feedChunks e p sid [''ab'', ''c'' @ [newline] @ ''de'', ''f'' @ [newline]]
       initial_handler_state s
     = onData e p sid (''abc'' @ [newline] @ ''def'' @ [newline]) initial_handler_state s"
proof (intro conjI)
  show "feedChunks e p sid (c # cs) h s = onData e p sid (concat (c # cs)) h s"
    by (rule feedChunks_concat)
  show "snd (feedChunks e p sid chunks initial_handler_state s)
     = snd (onData e p sid (concat chunks) initial_handler_state s)"
    by (rule feedChunks_initial)
  have "feedChunks e p sid [''ab'', ''c'' @ [newline] @ ''de'', ''f'' @ [newline]]
          initial_handler_state s
        = onData e p sid (concat [''ab'', ''c'' @ [newline] @ ''de'', ''f'' @ [newline]])
            initial_handler_state s"
    by (rule feedChunks_concat)
  then show "feedChunks e p sid [''ab'', ''c'' @ [newline] @ ''de'', ''f'' @ [newline]]
       initial_handler_state s
     = onData e p sid (''abc'' @ [newline] @ ''def'' @ [newline]) initial_handler_state s"
    by simp
qed

text \<open>
  The example with the concrete parser: across the three chunks the two lines are parsed
  and emitted in order, and nothing is left in the buffer.
\<close>

theorem chunk_boundary_independence_witness:
  "feedChunks demo_env ''p1'' ''s1'' [''ab'', ''c'' @ [newline] @ ''de'', ''f'' @ [newline]]
     initial_handler_state new_manager
   = (Inr \<lparr>hasReceivedOutput = True, lastOutput = ''abc'' @ [newline] @ ''def'' @ [newline],
            buffer = []\<rparr>,
      add_trace
        [ParseCliOutput (''abc'' @ [newline]) ''p1'' ''s1'',
         Emitted (Output \<lparr>ev_panelId = ''p1'', ev_sessionId = ''s1'', ev_type = stdout,
                           ev_data = Text (''abc'' @ [newline])\<rparr>) [],
         ParseCliOutput (''def'' @ [newline]) ''p1'' ''s1'',
         Emitted (Output \<lparr>ev_panelId = ''p1'', ev_sessionId = ''s1'', ev_type = stdout,
                           ev_data = Text (''def'' @ [newline])\<rparr>) []]
        new_manager)"
proof -
  have "feedChunks demo_env ''p1'' ''s1'' [''ab'', ''c'' @ [newline] @ ''de'', ''f'' @ [newline]]
          initial_handler_state new_manager
        = onData demo_env ''p1'' ''s1'' (''abc'' @ [newline] @ ''def'' @ [newline])
            initial_handler_state new_manager"
    using chunk_boundary_independence [of demo_env "''p1''" "''s1''" _ _ _ new_manager] by blast
  also have "\<dots> = (Inr \<lparr>hasReceivedOutput = True,
            lastOutput = ''abc'' @ [newline] @ ''def'' @ [newline], buffer = []\<rparr>,
      add_trace
        [ParseCliOutput (''abc'' @ [newline]) ''p1'' ''s1'',
         Emitted (Output \<lparr>ev_panelId = ''p1'', ev_sessionId = ''s1'', ev_type = stdout,
                           ev_data = Text (''abc'' @ [newline])\<rparr>) [],
         ParseCliOutput (''def'' @ [newline]) ''p1'' ''s1'',
         Emitted (Output \<lparr>ev_panelId = ''p1'', ev_sessionId = ''s1'', ev_type = stdout,
                           ev_data = Text (''def'' @ [newline])\<rparr>) []]
        new_manager)"
    by (simp add: onData_apply initial_handler_state_def lineActions_def parseActions_def
        emitActions_def demo_env_def demo_parse_def new_manager_def getAllProcesses_def
        newline_def js_trim_def isWhitespace_def)
  finally show ?thesis .
qed

section \<open>C5: the flush of the buffer at exit\<close>

text \<open>
  C5, as the specification states it, fails: a buffer that is not empty but holds only
  white space is not flushed. When process 4242 of panel \<open>p1\<close> exits with a single space
  in the buffer, the exit handler does not call the parser: all it does is the cleanup and
  the exit event.
\<close>

theorem exit_flush_counterexample:
  "buffer \<lparr>hasReceivedOutput = True, lastOutput = '' '', buffer = '' ''\<rparr> \<noteq> [] \<and>
   trace (snd (onExit quiet_env (IPty 4242) ''p1'' ''s1''
                 \<lparr>hasReceivedOutput = True, lastOutput = '' '', buffer = '' ''\<rparr> 0 None
                 running_manager))
     = [CleanupCliResources ''s1'', Emitted (Exit ''p1'' ''s1'' (Some 0) None) [''p1'']]"
proof -
  have "getAllDescendantPids quiet_env 0 (pty_pid (IPty 4242)) = []"
    by (simp add: quiet_env_def)
  then show ?thesis
    by (simp add: onExit_no_orphans flushActions_def failureActions_def js_trim_def
        isWhitespace_def running_manager_def new_manager_def getAllProcesses_def)
qed

text \<open>
  C5, amended. At process exit, if the buffer holds anything but white space
  (\<^verbatim>\<open>buffer.trim()\<close> is not empty), the handler passes the buffer as it is to the tool's
  parser, once: it is the only call of the parser in the handler, and the output events
  the parser returns are emitted right after the call, in order, before the exit event,
  which is the last action. If the buffer is empty or holds only white space, the handler
  does not call the parser.
\<close>

theorem exit_flush:
  "(js_trim (buffer h) \<noteq> [] \<longrightarrow>
      (\<exists>pre post.
         trace (snd (onExit e ptyProcess p sid h exitCode sig s))
           = trace s @ pre
             @ ParseCliOutput (buffer h) p sid
               # map (\<lambda>ev. Emitted (Output ev) (getAllProcesses s))
                   (parseCliOutput e (buffer h) p sid)
             @ post @ [Emitted (Exit p sid (Some exitCode) sig) (getAllProcesses s)] \<and>
         list_all (\<lambda>a. \<not> isParseCall a) (pre @ post))) \<and>
   (js_trim (buffer h) = [] \<longrightarrow>
      (\<exists>d. trace (snd (onExit e ptyProcess p sid h exitCode sig s)) = trace s @ d \<and>
           list_all (\<lambda>a. \<not> isParseCall a) d))"
proof -
  let ?ids = "getAllProcesses s"
  from onExit_apply [of e ptyProcess p sid h exitCode sig s] obtain d where
    d: "list_all killAction d" and
    1: "onExit e ptyProcess p sid h exitCode sig s
       = (Inr (),
          (add_trace (d @ flushActions e h p sid ?ids @ failureActions e h p sid exitCode sig ?ids
                        @ [CleanupCliResources sid, Emitted (Exit p sid (Some exitCode) sig) ?ids]) s)
          \<lparr>processes := AList.delete p (processes s)\<rparr>)"
    by blast
  have np: "list_all (\<lambda>a. \<not> isParseCall a) d"
    using d killAction_not_parse by (rule list_all_mono)
  let ?post = "failureActions e h p sid exitCode sig ?ids @ [CleanupCliResources sid]"
  have post: "list_all (\<lambda>a. \<not> isParseCall a) (d @ ?post)"
    using np by (simp add: not_parse_failureActions)
  show ?thesis
  proof (intro conjI impI)
    assume "js_trim (buffer h) \<noteq> []"
    then have "trace (snd (onExit e ptyProcess p sid h exitCode sig s))
           = trace s @ d
             @ ParseCliOutput (buffer h) p sid
               # map (\<lambda>ev. Emitted (Output ev) ?ids) (parseCliOutput e (buffer h) p sid)
             @ ?post @ [Emitted (Exit p sid (Some exitCode) sig) ?ids]"
      by (simp add: 1 flushActions_def parseActions_def emitActions_def)
    with post show "\<exists>pre post.
         trace (snd (onExit e ptyProcess p sid h exitCode sig s))
           = trace s @ pre
             @ ParseCliOutput (buffer h) p sid
               # map (\<lambda>ev. Emitted (Output ev) ?ids) (parseCliOutput e (buffer h) p sid)
             @ post @ [Emitted (Exit p sid (Some exitCode) sig) ?ids] \<and>
         list_all (\<lambda>a. \<not> isParseCall a) (pre @ post)"
      by blast
  next
    assume "js_trim (buffer h) = []"
    then have "trace (snd (onExit e ptyProcess p sid h exitCode sig s))
           = trace s @ (d @ ?post @ [Emitted (Exit p sid (Some exitCode) sig) ?ids])"
      by (simp add: 1 flushActions_def)
    moreover have "list_all (\<lambda>a. \<not> isParseCall a)
                     (d @ ?post @ [Emitted (Exit p sid (Some exitCode) sig) ?ids])"
      using post by simp
    ultimately show "\<exists>d. trace (snd (onExit e ptyProcess p sid h exitCode sig s)) = trace s @ d \<and>
           list_all (\<lambda>a. \<not> isParseCall a) d"
      by blast
  qed
qed

text \<open>
  Examples: the fragment \<open>tail\<close> left in the buffer is parsed once and its event is
  emitted before the exit event; a buffer of one space is not parsed.
\<close>

theorem exit_flush_witness:
  "js_trim ''tail'' \<noteq> [] \<and>
   (\<exists>pre post.
      trace (snd (onExit demo_env (IPty 10) ''p1'' ''s1''
                    \<lparr>hasReceivedOutput = True, lastOutput = ''tail'', buffer = ''tail''\<rparr> 0 None
                    new_manager))
        = pre @ ParseCliOutput ''tail'' ''p1'' ''s1''
              # [Emitted (Output \<lparr>ev_panelId = ''p1'', ev_sessionId = ''s1'', ev_type = stdout,
                                  ev_data = Text ''tail''\<rparr>) []]
              @ post @ [Emitted (Exit ''p1'' ''s1'' (Some 0) None) []] \<and>
      list_all (\<lambda>a. \<not> isParseCall a) (pre @ post)) \<and>
   js_trim '' '' = [] \<and>
   (\<exists>d. trace (snd (onExit demo_env (IPty 10) ''p1'' ''s1''
                    \<lparr>hasReceivedOutput = True, lastOutput = '' '', buffer = '' ''\<rparr> 0 None
                    new_manager)) = d \<and>
        list_all (\<lambda>a. \<not> isParseCall a) d)"
proof -
  have 1: "js_trim ''tail'' \<noteq> []" "js_trim '' '' = []"
    by (simp_all add: js_trim_def isWhitespace_def)
  have 2: "getAllProcesses new_manager = []" "trace new_manager = []"
    by (simp_all add: new_manager_def getAllProcesses_def)
  have 3: "parseCliOutput demo_env ''tail'' ''p1'' ''s1''
           = [\<lparr>ev_panelId = ''p1'', ev_sessionId = ''s1'', ev_type = stdout, ev_data = Text ''tail''\<rparr>]"
    by (simp add: demo_env_def demo_parse_def)
  from exit_flush [of "\<lparr>hasReceivedOutput = True, lastOutput = ''tail'', buffer = ''tail''\<rparr>"
      demo_env "IPty 10" "''p1''" "''s1''" 0 None new_manager] 1(1)
  have a: "\<exists>pre post.
      trace (snd (onExit demo_env (IPty 10) ''p1'' ''s1''
                    \<lparr>hasReceivedOutput = True, lastOutput = ''tail'', buffer = ''tail''\<rparr> 0 None
                    new_manager))
        = pre @ ParseCliOutput ''tail'' ''p1'' ''s1''
              # [Emitted (Output \<lparr>ev_panelId = ''p1'', ev_sessionId = ''s1'', ev_type = stdout,
                                  ev_data = Text ''tail''\<rparr>) []]
              @ post @ [Emitted (Exit ''p1'' ''s1'' (Some 0) None) []] \<and>
      list_all (\<lambda>a. \<not> isParseCall a) (pre @ post)"
    by (simp add: 2 3)
  from exit_flush [of "\<lparr>hasReceivedOutput = True, lastOutput = '' '', buffer = '' ''\<rparr>"
      demo_env "IPty 10" "''p1''" "''s1''" 0 None new_manager] 1(2)
  have b: "\<exists>d. trace (snd (onExit demo_env (IPty 10) ''p1'' ''s1''
                    \<lparr>hasReceivedOutput = True, lastOutput = '' '', buffer = '' ''\<rparr> 0 None
                    new_manager)) = d \<and>
        list_all (\<lambda>a. \<not> isParseCall a) d"
    by (simp add: 2)
  from 1 a b show ?thesis by blast
qed

section \<open>C6: killing a process tree never raises\<close>

text \<open>
  C6. \<^verbatim>\<open>killProcessTree\<close> never throws: for every root pid, whatever the kill commands,
  the signals and the kill through the handle do, it returns a boolean and changes nothing
  in the manager but the trace. The boolean is true exactly when the enumeration after the
  settle delay finds no descendant. When descendants remain it is false, and a
  \<^verbatim>\<open>stderr\<close> output event has been emitted whose text lists every remaining pid as
  \<open>name(pid)\<close>, the name being the one \<^verbatim>\<open>getProcessInfo\<close> resolves (\<open>unknown\<close> when
  the query fails or answers nothing).
\<close>

theorem killProcessTree_never_raises:
  "\<exists>success d.
     killProcessTree e rootPid p sid s = (Inr success, add_trace d s) \<and>
     success = (getAllDescendantPids e 2 rootPid = []) \<and>
     (getAllDescendantPids e 2 rootPid \<noteq> [] \<longrightarrow>
        Emitted (Output (zombieWarning e p sid (getAllDescendantPids e 2 rootPid)))
          (getAllProcesses s) \<in> set d \<and>
        ev_type (zombieWarning e p sid (getAllDescendantPids e 2 rootPid)) = stderr \<and>
        (\<forall>q \<in> set (getAllDescendantPids e 2 rootPid).
           \<exists>t. ev_data (zombieWarning e p sid (getAllDescendantPids e 2 rootPid)) = Text t \<and>
               str_includes t (processName e q @ ''('' @ show_nat q @ '')'')))"
proof -
  from killProcessTree_apply [of e rootPid p sid s] obtain d d' where
    1: "killProcessTree e rootPid p sid s
        = (Inr (getAllDescendantPids e 2 rootPid = []),
           add_trace (d @ Sleep 500 # zombieActions e rootPid p sid (getAllProcesses s) @ d') s)"
    by blast
  let ?d = "d @ Sleep 500 # zombieActions e rootPid p sid (getAllProcesses s) @ d'"
  have 2: "getAllDescendantPids e 2 rootPid \<noteq> [] \<longrightarrow>
        Emitted (Output (zombieWarning e p sid (getAllDescendantPids e 2 rootPid)))
          (getAllProcesses s) \<in> set ?d"
    by (simp add: zombieActions_def)
  have 3: "ev_type (zombieWarning e p sid (getAllDescendantPids e 2 rootPid)) = stderr"
    by (simp add: zombieWarning_def)
  have 4: "\<forall>q \<in> set (getAllDescendantPids e 2 rootPid).
           \<exists>t. ev_data (zombieWarning e p sid (getAllDescendantPids e 2 rootPid)) = Text t \<and>
               str_includes t (processName e q @ ''('' @ show_nat q @ '')'')"
    using zombieWarning_lists by blast
  show ?thesis
    using 1 2 3 4 by blast
qed

text \<open>
  Example: on Linux every kill command fails (operation not permitted) and process 77
  survives. The call returns false and warns about \<open>sleep(77)\<close>.
\<close>

theorem killProcessTree_never_raises_witness:
  "getAllDescendantPids demo_env 2 10 = [77] \<and>
   (\<exists>d. killProcessTree demo_env 10 ''p1'' ''s1'' new_manager = (Inr False, add_trace d new_manager) \<and>
        Emitted (Output (zombieWarning demo_env ''p1'' ''s1'' [77])) [] \<in> set d) \<and>
   ev_data (zombieWarning demo_env ''p1'' ''s1'' [77])
     = Text ([newline] @ ''[WARNING] Failed to terminate 1 child process: sleep(77)''
             @ [newline] @ ''Please manually kill these processes.'' @ [newline])"
proof -
  have r: "getAllDescendantPids demo_env 2 10 = [77]"
    by (simp add: demo_env_def)
  have ids: "getAllProcesses new_manager = []"
    by (simp add: getAllProcesses_def new_manager_def)
  have n77: "show_nat 77 = ''77''"
    by code_simp
  have n1: "show_nat (Suc 0) = ''1''"
    by code_simp
  have name: "processName demo_env 77 = ''sleep''"
    by (simp add: processName_def demo_env_def js_trim_def isWhitespace_def)
  have warning: "ev_data (zombieWarning demo_env ''p1'' ''s1'' [77])
     = Text ([newline] @ ''[WARNING] Failed to terminate 1 child process: sleep(77)''
             @ [newline] @ ''Please manually kill these processes.'' @ [newline])"
    by (simp add: zombieWarning_def processReport_def getProcessInfo_def name n77 n1 plural_def)
  from killProcessTree_never_raises [of demo_env 10 "''p1''" "''s1''" new_manager]
  have "\<exists>d. killProcessTree demo_env 10 ''p1'' ''s1'' new_manager = (Inr False, add_trace d new_manager) \<and>
        Emitted (Output (zombieWarning demo_env ''p1'' ''s1'' [77])) [] \<in> set d"
    unfolding r ids by auto
  with r warning show ?thesis by blast
qed

section \<open>C7: the availability cache\<close>

text \<open>
  C7. The time to live of the cache is five minutes (300000 ms). If a probe returns a result
  \<open>a\<close>, it has called the underlying check at most once, and it leaves a cache entry
  with that result; a second probe that starts within the time to live of that entry
  (\<^verbatim>\<open>now - timestamp < TTL\<close>) returns the same \<open>a\<close> and leaves the manager as it is: it
  does not call the check. If there is no cache entry (as after \<^verbatim>\<open>clearAvailabilityCache\<close>,
  which sets the cache to null) or the entry has expired, the probe calls the underlying
  check once, with the custom executable path of the configuration, returns what the check
  yields, and caches a result the check returns with a new timestamp. Probes are taken one
  after the other.
\<close>

theorem availability_cache:
  "CACHE_TTL = 300000 \<and>
   (getCachedAvailability e1 s = (Inr a, s1) \<longrightarrow>
      (trace s1 = trace s \<or> trace s1 = trace s @ [TestCliAvailability (claudeExecutablePath e1)]) \<and>
      (\<exists>c. availabilityCache s1 = Some c \<and> result c = a \<and>
           (dateNow e2 0 - timestamp c < CACHE_TTL \<longrightarrow>
              getCachedAvailability e2 s1 = (Inr a, s1)))) \<and>
   (availabilityCache s = None \<or>
    (\<exists>c. availabilityCache s = Some c \<and> CACHE_TTL \<le> dateNow e 0 - timestamp c) \<longrightarrow>
      fst (getCachedAvailability e s) = testCliAvailability e (claudeExecutablePath e) \<and>
      trace (snd (getCachedAvailability e s))
        = trace s @ [TestCliAvailability (claudeExecutablePath e)] \<and>
      (\<forall>r. testCliAvailability e (claudeExecutablePath e) = Inr r \<longrightarrow>
           availabilityCache (snd (getCachedAvailability e s))
             = Some \<lparr>result = r, timestamp = dateNow e 1\<rparr>)) \<and>
   clearAvailabilityCache s = (Inr (), s\<lparr>availabilityCache := None\<rparr>)"
proof (intro conjI impI)
  show "CACHE_TTL = 300000" by (simp add: CACHE_TTL_def)
next
  assume 1: "getCachedAvailability e1 s = (Inr a, s1)"
  from getCachedAvailability_result [OF 1]
  show "trace s1 = trace s \<or> trace s1 = trace s @ [TestCliAvailability (claudeExecutablePath e1)]"
    by auto
  from getCachedAvailability_result [OF 1] obtain c where
    c: "availabilityCache s1 = Some c" "result c = a" by blast
  have "dateNow e2 0 - timestamp c < CACHE_TTL \<longrightarrow> getCachedAvailability e2 s1 = (Inr a, s1)"
    using getCachedAvailability_hit [OF c(1), of e2] c(2) by simp
  with c show "\<exists>c. availabilityCache s1 = Some c \<and> result c = a \<and>
           (dateNow e2 0 - timestamp c < CACHE_TTL \<longrightarrow>
              getCachedAvailability e2 s1 = (Inr a, s1))"
    by blast
next
  assume 2: "availabilityCache s = None \<or>
    (\<exists>c. availabilityCache s = Some c \<and> CACHE_TTL \<le> dateNow e 0 - timestamp c)"
  note m = getCachedAvailability_miss [OF 2]
  show "fst (getCachedAvailability e s) = testCliAvailability e (claudeExecutablePath e)"
    by (simp add: m freshAvailability_apply split: sum.splits)
  show "trace (snd (getCachedAvailability e s))
        = trace s @ [TestCliAvailability (claudeExecutablePath e)]"
    by (simp add: m freshAvailability_apply split: sum.splits)
  show "\<forall>r. testCliAvailability e (claudeExecutablePath e) = Inr r \<longrightarrow>
           availabilityCache (snd (getCachedAvailability e s))
             = Some \<lparr>result = r, timestamp = dateNow e 1\<rparr>"
    by (simp add: m freshAvailability_apply)
next
  show "clearAvailabilityCache s = (Inr (), s\<lparr>availabilityCache := None\<rparr>)"
    by (simp add: clearAvailabilityCache_def)
qed

text \<open>
  Example: the first probe of a new manager at time 1000 calls the check and caches its
  result with timestamp 1001; a second probe at time 1000 returns the cached result
  without a call; a probe at time 400000, and a probe after clearing the cache, call the
  check again.
\<close>

theorem availability_cache_witness:
  "getCachedAvailability demo_env new_manager = (Inr demo_unavailable, demo_cached) \<and>
   getCachedAvailability demo_env demo_cached = (Inr demo_unavailable, demo_cached) \<and>
   trace demo_cached = [TestCliAvailability (Some ''/opt/claude'')] \<and>
   trace (snd (getCachedAvailability late_env demo_cached))
     = [TestCliAvailability (Some ''/opt/claude''), TestCliAvailability (Some ''/opt/claude'')] \<and>
   availabilityCache (snd (getCachedAvailability late_env demo_cached))
     = Some \<lparr>result = demo_unavailable, timestamp = 400000\<rparr> \<and>
   trace (snd (getCachedAvailability demo_env (snd (clearAvailabilityCache demo_cached))))
     = [TestCliAvailability (Some ''/opt/claude''), TestCliAvailability (Some ''/opt/claude'')]"
proof -
  have first: "getCachedAvailability demo_env new_manager = (Inr demo_unavailable, demo_cached)"
    by (simp add: getCachedAvailability_def freshAvailability_apply new_manager_def demo_env_def
        demo_unavailable_def demo_cached_def add_trace_def)
  have cached: "availabilityCache demo_cached = Some \<lparr>result = demo_unavailable, timestamp = 1001\<rparr>"
    "trace demo_cached = [TestCliAvailability (Some ''/opt/claude'')]"
    by (simp_all add: demo_cached_def new_manager_def)
  have early: "dateNow demo_env 0 - 1001 < CACHE_TTL"
    by (simp add: demo_env_def CACHE_TTL_def)
  have late: "CACHE_TTL \<le> dateNow late_env 0 - 1001" "dateNow late_env 1 = 400000"
    "claudeExecutablePath late_env = Some ''/opt/claude''"
    "testCliAvailability late_env (Some ''/opt/claude'') = Inr demo_unavailable"
    by (simp_all add: late_env_def demo_env_def CACHE_TTL_def demo_unavailable_def)
  have demo: "claudeExecutablePath demo_env = Some ''/opt/claude''"
    by (simp add: demo_env_def)
  have second: "getCachedAvailability demo_env demo_cached = (Inr demo_unavailable, demo_cached)"
    using availability_cache [of demo_env new_manager demo_unavailable demo_cached demo_env]
      first cached(1) early by auto
  have expired: "trace (snd (getCachedAvailability late_env demo_cached))
     = [TestCliAvailability (Some ''/opt/claude''), TestCliAvailability (Some ''/opt/claude'')] \<and>
   availabilityCache (snd (getCachedAvailability late_env demo_cached))
     = Some \<lparr>result = demo_unavailable, timestamp = 400000\<rparr>"
    using availability_cache [where s = demo_cached and e = late_env] cached late by auto
  have cleared: "trace (snd (getCachedAvailability demo_env (snd (clearAvailabilityCache demo_cached))))
     = [TestCliAvailability (Some ''/opt/claude''), TestCliAvailability (Some ''/opt/claude'')]"
    using availability_cache [where s = "demo_cached\<lparr>availabilityCache := None\<rparr>" and e = demo_env]
      availability_cache [where s = demo_cached] cached(2) demo by simp
  from first second cached(2) expired cleared show ?thesis by blast
qed

section \<open>C8: starting an unavailable tool\<close>

text \<open>
  C8. When the availability probe reports the tool unavailable, \<^verbatim>\<open>spawnCliProcess\<close>
  emits a \<^verbatim>\<open>json\<close> output event with status \<open>error\<close> whose details contain the line
  with the searched path (\<^verbatim>\<open>getShellPath()\<close>) and the line with the attempted command
  (\<open>tool --version\<close>), records the session error, emits the error event and fails with
  the error \<open>tool CLI not available: ...\<close>. Nothing is spawned and the registry is left as
  it was: \<^verbatim>\<open>isPanelRunning\<close> answers for every panel what it answered before, so it
  remains false for the panel of the call.
\<close>

theorem tool_unavailable:
  assumes "getCachedAvailability e s = (Inr a, s1)" and "\<not> available a"
  shows "\<exists>msg info.
     spawnCliProcess e options s =
       (Inl msg,
        add_trace
          [Emitted (Output \<lparr>ev_panelId = opt_panelId options, ev_sessionId = opt_sessionId options,
                            ev_type = json,
                            ev_data = SessionMessage ''error'' (getCliToolName e @ '' not available'')
                                        info\<rparr>)
             (getAllProcesses s),
           AddSessionError (opt_sessionId options) (getCliToolName e @ '' not available'')
             (show_opt (error a) @ [newline] @ ''Please install '' @ getCliToolName e
                @ '' or verify it is in your PATH.''),
           Emitted (Error (opt_panelId options) (opt_sessionId options) msg) (getAllProcesses s)]
          s1) \<and>
     msg = getCliToolName e @ '' CLI not available: '' @ show_opt (error a) \<and>
     str_includes info (''Enhanced PATH searched: '' @ getShellPath e) \<and>
     str_includes info (''Attempted command: '' @ getCliToolName e @ '' --version'') \<and>
     processes (snd (spawnCliProcess e options s)) = processes s \<and>
     isPanelRunning (snd (spawnCliProcess e options s)) q = isPanelRunning s q"
proof -
  have p1: "processes s1 = processes s"
    using getCachedAvailability_processes [of e s] assms(1) by simp
  then have ids: "getAllProcesses s1 = getAllProcesses s"
    by (simp add: getAllProcesses_def)
  note r = spawnCliProcess_unavailable [OF assms, of options]
  have "processes (snd (spawnCliProcess e options s)) = processes s"
    by (simp add: r p1)
  moreover from this have "isPanelRunning (snd (spawnCliProcess e options s)) q = isPanelRunning s q"
    by (simp add: isPanelRunning_def)
  ultimately show ?thesis
    using r message_lists_path [of e "error a"] message_lists_command [of e "error a"]
    unfolding ids by blast
qed

text \<open>
  Example: the tool of \<open>demo_env\<close> is not found. Starting panel \<open>p1\<close> on a new manager
  fails, and the panel is not running afterwards.
\<close>

theorem tool_unavailable_witness:
  "getCachedAvailability demo_env new_manager = (Inr demo_unavailable, demo_cached) \<and>
   \<not> available demo_unavailable \<and>
   fst (spawnCliProcess demo_env demo_options new_manager)
     = Inl ''Claude CLI not available: not found'' \<and>
   processes (snd (spawnCliProcess demo_env demo_options new_manager)) = [] \<and>
   \<not> isPanelRunning (snd (spawnCliProcess demo_env demo_options new_manager)) ''p1''"
proof -
  have first: "getCachedAvailability demo_env new_manager = (Inr demo_unavailable, demo_cached)"
    by (simp add: getCachedAvailability_def freshAvailability_apply new_manager_def demo_env_def
        demo_unavailable_def demo_cached_def add_trace_def)
  have un: "\<not> available demo_unavailable" "show_opt (error demo_unavailable) = ''not found''"
    by (simp_all add: demo_unavailable_def show_opt_def)
  have new: "processes new_manager = []" "\<not> isPanelRunning new_manager ''p1''"
    "getCliToolName demo_env = ''Claude''"
    by (simp_all add: new_manager_def isPanelRunning_def demo_env_def)
  from tool_unavailable [OF first un(1), of demo_options "''p1''"]
  show ?thesis
    using first un new by auto
qed

section \<open>C9: the last output in the report of a runtime failure\<close>

text \<open>
  C9. The report of a runtime failure is meant to show the last 500 characters of the
  output, but \<^verbatim>\<open>substring(-500)\<close> takes a negative start as 0 and returns the whole
  string. After 501 characters of output the details of the error event hold all 501 of
  them behind the heading, 514 characters in all.
\<close>

theorem runtime_failure_reports_whole_output:
  "handleProcessRuntimeFailure demo_env 1 None ''p1'' ''s1'' (replicate 501 (CHR ''a'')) new_manager
   = (Inr (),
      add_trace
        [Emitted (Output \<lparr>ev_panelId = ''p1'', ev_sessionId = ''s1'', ev_type = json,
            ev_data = SessionMessage ''error'' ''Claude exited with error (exit code: 1)''
                        (''Last output:'' @ [newline] @ replicate 501 (CHR ''a''))\<rparr>) []]
        new_manager) \<and>
   length (runtimeFailureDetails (replicate 501 (CHR ''a''))) = 514"
proof -
  have n: "show_int 1 = ''1''"
    by code_simp
  show ?thesis
    by (simp add: handleProcessRuntimeFailure_def emit_apply runtimeFailureDetails_def
        substring_negative demo_env_def n new_manager_def getAllProcesses_def)
qed

section \<open>C10: every entry is stored under its own panel id\<close>

text \<open>
  C10. In every manager that the public operations and the handlers of the spawned
  processes reach from a new manager, an entry found under a key has that key as its
  \<^verbatim>\<open>panelId\<close>. Hence \<^verbatim>\<open>sendInput\<close> never takes its mismatch branch: for a registered
  panel it writes the input to the process of that panel, and it throws only for a panel
  that is not registered (the error that no process was found).
\<close>

theorem registry_keys_match:
  assumes "reachable s"
  shows "(\<forall>k cp. map_of (processes s) k = Some cp \<longrightarrow> panelId cp = k) \<and>
     sendInput e p input s =
       (case map_of (processes s) p of
          None \<Rightarrow> (Inl (''No '' @ getCliToolName e @ '' process found for panel '' @ p), s)
        | Some cp \<Rightarrow> (Inr (), add_trace [PtyWrite (process cp) input] s)) \<and>
     fst (sendInput e p input s) \<noteq> Inl ''Panel ID mismatch: process belongs to different panel''"
proof -
  from assms have inv: "keysMatch s" by (rule reachable_keysMatch)
  then have 1: "\<forall>k cp. map_of (processes s) k = Some cp \<longrightarrow> panelId cp = k"
    using keysMatch_lookup by blast
  have 2: "sendInput e p input s =
       (case map_of (processes s) p of
          None \<Rightarrow> (Inl (''No '' @ getCliToolName e @ '' process found for panel '' @ p), s)
        | Some cp \<Rightarrow> (Inr (), add_trace [PtyWrite (process cp) input] s))"
    using 1 by (simp add: sendInput_def throw_apply effect_apply split: option.splits)
  have 3: "fst (sendInput e p input s) \<noteq> Inl ''Panel ID mismatch: process belongs to different panel''"
    unfolding 2 by (simp split: option.splits)
  from 1 2 3 show ?thesis by blast
qed

text \<open>
  Example: the manager after starting panel \<open>p1\<close> with an available tool is reachable and
  holds process 4242 under \<open>p1\<close>. Input for \<open>p1\<close> is written to that process; input for
  \<open>p2\<close> fails because no process is found.
\<close>

theorem registry_keys_match_witness:
  "reachable demo_started \<and>
   processes demo_started
     = [(''p1'', \<lparr>process = IPty 4242, panelId = ''p1'', sessionId = ''s1'',
                 worktreePath = ''/tmp/wt''\<rparr>)] \<and>
   sendInput ok_env ''p1'' ''hello'' demo_started
     = (Inr (), add_trace [PtyWrite (IPty 4242) ''hello''] demo_started) \<and>
   sendInput ok_env ''p2'' ''hello'' demo_started
     = (Inl ''No Claude process found for panel p2'', demo_started)"
proof -
  have "reachable new_manager"
    by (rule reach_new) (simp add: new_manager_def)
  then have r: "reachable demo_started"
    unfolding demo_started_def by (rule reach_spawnCliProcess)
  have procs: "processes demo_started
     = [(''p1'', \<lparr>process = IPty 4242, panelId = ''p1'', sessionId = ''s1'',
                 worktreePath = ''/tmp/wt''\<rparr>)]"
    by code_simp
  have tool: "getCliToolName ok_env = ''Claude''"
    by (simp add: ok_env_def demo_env_def)
  have 1: "sendInput ok_env ''p1'' ''hello'' demo_started
     = (Inr (), add_trace [PtyWrite (IPty 4242) ''hello''] demo_started)"
    using registry_keys_match [OF r, of ok_env "''p1''" "''hello''", THEN conjunct2, THEN conjunct1]
    by (simp add: procs)
  have 2: "sendInput ok_env ''p2'' ''hello'' demo_started
     = (Inl ''No Claude process found for panel p2'', demo_started)"
    using registry_keys_match [OF r, of ok_env "''p2''" "''hello''", THEN conjunct2, THEN conjunct1]
    by (simp add: procs tool)
  from r procs 1 2 show ?thesis by blast
qed

end
